theory Spec2Isabelle
  imports Complex_Main "HOL-Library.Word" "HOL-Library.AList"
begin

section \<open>Query diagnostics bundles (yb\_query\_diagnostics.c)\<close>

text \<open>
  A shallow embedding of \<^verbatim>\<open>src/backend/utils/misc/yb_query_diagnostics.c\<close>.
  Shared memory is an explicit state record that every operation takes and returns;
  \<^verbatim>\<open>ereport(ERROR, ...)\<close> is the left injection of a sum; a write outside an array is
  \<^term>\<open>None\<close>. Character arrays are lists of bytes of the array's length, and a C string
  is what such a list holds before its first NUL byte.
\<close>

subsection \<open>C strings in fixed character arrays\<close>

type_synonym int64 = "64 word"
type_synonym TimestampTz = "64 word"

definition NUL :: char where
  "NUL = CHR 0x00"

definition strlen :: "string \<Rightarrow> nat" where
  "strlen s = length (takeWhile (\<lambda>c. c \<noteq> NUL) s)"

text \<open>The C string held by a character array: the bytes before the first NUL.\<close>

definition cstr :: "string \<Rightarrow> string" where
  "cstr s = takeWhile (\<lambda>c. c \<noteq> NUL) s"

text \<open>\<^verbatim>\<open>memcpy(dst + off, src, n)\<close> with \<open>n = length src\<close>; the caller checks the bounds.\<close>

definition memcpy :: "string \<Rightarrow> nat \<Rightarrow> string \<Rightarrow> string" where
  "memcpy dst off src = take off dst @ src @ drop (off + length src) dst"

text \<open>\<^verbatim>\<open>MemSet(a, 0, n)\<close> on a character array of \<open>n\<close> bytes.\<close>

definition MemSet0 :: "nat \<Rightarrow> string" where
  "MemSet0 n = replicate n NUL"

text \<open>
  The C string left by \<^verbatim>\<open>snprintf(buf, n, "%s", s)\<close>: at most \<open>n - 1\<close> bytes of \<open>s\<close>.
\<close>

definition snprintf :: "nat \<Rightarrow> string \<Rightarrow> string" where
  "snprintf n s = take (n - 1) (cstr s)"

text \<open>\<^verbatim>\<open>%ld\<close> and \<^verbatim>\<open>%d\<close>: a signed integer in decimal.\<close>

function dec_digits :: "int \<Rightarrow> string" where
  "dec_digits n = (if n < 10 then [char_of (48 + n)]
                   else dec_digits (n div 10) @ [char_of (48 + n mod 10)])"
  by pat_completeness auto
termination
  by (relation "measure nat") auto

declare dec_digits.simps [simp del]

definition dec_int :: "int \<Rightarrow> string" where
  "dec_int i = (if i < 0 then CHR ''-'' # dec_digits (- i) else dec_digits i)"

subsection \<open>Data\<close>

definition DESCRIPTION_LEN :: nat where
  "DESCRIPTION_LEN = 128"

text \<open>
  \<^verbatim>\<open>YbQueryDiagnosticsParams\<close> and \<^verbatim>\<open>YbQueryDiagnosticsMetadata\<close> are declared in
  \<^verbatim>\<open>yb_query_diagnostics.h\<close>; the fields are the ones this file reads and writes, the
  integer ones at the width \<^verbatim>\<open>FetchParams\<close> fetches them (\<^verbatim>\<open>PG_GETARG_INT64\<close>) and
  \<^verbatim>\<open>OutputBundle\<close> returns them (\<^verbatim>\<open>Int64GetDatum\<close>). The \<^verbatim>\<open>path\<close> array is kept as the
  C string it holds.
\<close>

record YbQueryDiagnosticsParams =
  query_id :: int64
  diagnostics_interval_sec :: int64
  explain_sample_rate :: int64
  explain_analyze :: bool
  explain_dist :: bool
  explain_debug :: bool
  bind_var_query_min_duration_ms :: int64

record YbQueryDiagnosticsMetadata =
  params :: YbQueryDiagnosticsParams
  start_time :: TimestampTz
  path :: string

datatype bundle_status = DIAGNOSTICS_SUCCESS | DIAGNOSTICS_IN_PROGRESS | DIAGNOSTICS_ERROR

fun status_msg :: "bundle_status \<Rightarrow> string" where
  "status_msg DIAGNOSTICS_SUCCESS = ''Success''"
| "status_msg DIAGNOSTICS_IN_PROGRESS = ''In Progress''"
| "status_msg DIAGNOSTICS_ERROR = ''Error''"

record BundleInfo =
  bmetadata :: YbQueryDiagnosticsMetadata
  status :: bundle_status
  description :: string

text \<open>
  The circular buffer. The flexible array member \<^verbatim>\<open>bundles\<close> is allocated with exactly
  \<^verbatim>\<open>max_entries\<close> elements (\<^verbatim>\<open>YbQueryDiagnosticsBundlesShmemSize\<close>), so \<open>max_entries\<close> is
  the length of the list.
\<close>

record YbQueryDiagnosticsBundles =
  index :: nat
  bundles :: "BundleInfo list"

definition max_entries :: "YbQueryDiagnosticsBundles \<Rightarrow> nat" where
  "max_entries bc = length (bundles bc)"

text \<open>An element of the array after \<^verbatim>\<open>MemSet(bundles, 0, ...)\<close>.\<close>

definition zero_BundleInfo :: BundleInfo where
  "zero_BundleInfo =
     \<lparr>bmetadata = \<lparr>params = \<lparr>query_id = 0, diagnostics_interval_sec = 0,
                                 explain_sample_rate = 0, explain_analyze = False,
                                 explain_dist = False, explain_debug = False,
                                 bind_var_query_min_duration_ms = 0\<rparr>,
                    start_time = 0, path = []\<rparr>,
      status = DIAGNOSTICS_SUCCESS,
      description = MemSet0 DESCRIPTION_LEN\<rparr>"

text \<open>
  \<^verbatim>\<open>CircularBufferMaxEntries\<close>: the configured size in kB over \<^verbatim>\<open>sizeof(BundleInfo)\<close>,
  which is a parameter here.
\<close>

definition CircularBufferMaxEntries :: "nat \<Rightarrow> nat \<Rightarrow> nat" where
  "CircularBufferMaxEntries yb_query_diagnostics_circular_buffer_size sizeof_BundleInfo =
     yb_query_diagnostics_circular_buffer_size * 1024 div sizeof_BundleInfo"

text \<open>The part of \<^verbatim>\<open>YbQueryDiagnosticsShmemInit\<close> that sets up the circular buffer.\<close>

definition bundles_completed_init :: "nat \<Rightarrow> YbQueryDiagnosticsBundles" where
  "bundles_completed_init n = \<lparr>index = 0, bundles = replicate n zero_BundleInfo\<rparr>"

subsection \<open>The circular buffer of completed bundles\<close>

text \<open>
  \<^verbatim>\<open>InsertCompletedBundleInfo\<close>. The description is copied with
  \<^verbatim>\<open>memcpy(sample->description, description, strlen(description))\<close>: the bytes of the slot
  after the copied ones stay as they were. \<^term>\<open>None\<close> is a write outside the array of
  slots or outside the description array.
\<close>

definition InsertCompletedBundleInfo ::
  "YbQueryDiagnosticsMetadata \<Rightarrow> bundle_status \<Rightarrow> string \<Rightarrow>
   YbQueryDiagnosticsBundles \<Rightarrow> YbQueryDiagnosticsBundles option" where
  "InsertCompletedBundleInfo md st d bc =
     (if index bc < length (bundles bc) \<and> strlen d \<le> DESCRIPTION_LEN then
        let sample = bundles bc ! index bc;
            sample' = \<lparr>bmetadata = md, status = st,
                       description = memcpy (description sample) 0 (take (strlen d) d)\<rparr>;
            i' = (if index bc + 1 = max_entries bc then 0 else index bc + 1)
        in Some \<lparr>index = i', bundles = (bundles bc)[index bc := sample']\<rparr>
      else None)"

text \<open>A run of insertions, one after the other.\<close>

fun InsertAll ::
  "(YbQueryDiagnosticsMetadata \<times> bundle_status \<times> string) list \<Rightarrow>
   YbQueryDiagnosticsBundles \<Rightarrow> YbQueryDiagnosticsBundles option" where
  "InsertAll [] bc = Some bc"
| "InsertAll ((md, st, d) # rs) bc =
     (case InsertCompletedBundleInfo md st d bc of
        None \<Rightarrow> None
      | Some bc' \<Rightarrow> InsertAll rs bc')"

subsection \<open>The status view\<close>

datatype JsonbValue = jbvNumeric int | jbvBool bool

text \<open>\<^verbatim>\<open>CreateJsonb\<close>: the object of the explain parameters, as its key-value pairs.\<close>

definition CreateJsonb :: "YbQueryDiagnosticsParams \<Rightarrow> (string \<times> JsonbValue) list" where
  "CreateJsonb p =
     [(''explain_sample_rate'', jbvNumeric (sint (explain_sample_rate p))),
      (''explain_analyze'', jbvBool (explain_analyze p)),
      (''explain_dist'', jbvBool (explain_dist p)),
      (''explain_debug'', jbvBool (explain_debug p))]"

text \<open>A row of the view: the eight columns \<^verbatim>\<open>OutputBundle\<close> fills, in order.\<close>

record status_row =
  col_status :: string
  col_description :: string
  col_query_id :: int64
  col_start_time :: TimestampTz
  col_diagnostics_interval_sec :: int64
  col_bind_var_query_min_duration_ms :: int64
  col_params :: "(string \<times> JsonbValue) list"
  col_path :: string

text \<open>
  \<^verbatim>\<open>OutputBundle\<close>: \<^verbatim>\<open>CStringGetTextDatum(description)\<close> reads the description array as a
  C string.
\<close>

definition OutputBundle :: "YbQueryDiagnosticsMetadata \<Rightarrow> string \<Rightarrow> string \<Rightarrow> status_row" where
  "OutputBundle md desc st =
     \<lparr>col_status = st,
      col_description = cstr desc,
      col_query_id = query_id (params md),
      col_start_time = start_time md,
      col_diagnostics_interval_sec = diagnostics_interval_sec (params md),
      col_bind_var_query_min_duration_ms = bind_var_query_min_duration_ms (params md),
      col_params = CreateJsonb (params md),
      col_path = path md\<rparr>"

text \<open>
  The body of the loop of \<^verbatim>\<open>ProcessCompletedBundles\<close>: a slot whose query id is zero was
  never written and gives no row.
\<close>

definition slot_rows :: "BundleInfo \<Rightarrow> status_row list" where
  "slot_rows sample =
     (if query_id (params (bmetadata sample)) \<noteq> 0
      then [OutputBundle (bmetadata sample) (description sample) (status_msg (status sample))]
      else [])"

text \<open>\<^verbatim>\<open>ProcessCompletedBundles\<close>: the slots \<open>0\<close> to \<open>max_entries - 1\<close>, in this order.\<close>

definition ProcessCompletedBundles :: "YbQueryDiagnosticsBundles \<Rightarrow> status_row list" where
  "ProcessCompletedBundles bc =
     concat (map (\<lambda>i. slot_rows (bundles bc ! i)) [0..<max_entries bc])"

subsection \<open>Errors, environment and shared state\<close>

datatype errcode =
    ERRCODE_OBJECT_NOT_IN_PREREQUISITE_STATE
  | ERRCODE_FEATURE_NOT_SUPPORTED
  | ERRCODE_INTERNAL_ERROR
  | ERRCODE_INVALID_PARAMETER_VALUE
  | ERRCODE_PROGRAM_LIMIT_EXCEEDED
  | ERRCODE_DUPLICATE_OBJECT

text \<open>\<^verbatim>\<open>ereport(ERROR, (errcode(c), errmsg(m)))\<close>.\<close>

datatype error = ereport_ERROR errcode string

datatype open_outcome =
    Opened
  | OpenReturnsNegative string
  | OpenRaises string

datatype write_outcome =
    WriteReturns nat
  | WriteReturnsNegative string nat
  | WriteRaises string nat

text \<open>
  What this file takes from outside: the feature flag, the data directory, the constants
  \<^verbatim>\<open>MAXPGPATH\<close> and \<^verbatim>\<open>YB_QD_MAX_BIND_VARS_LEN\<close> of headers that are not among the sources,
  \<^verbatim>\<open>hash_any\<close> on the eight bytes of a timestamp, the type output functions
  (\<^verbatim>\<open>getTypeOutputInfo\<close> then \<^verbatim>\<open>OidOutputFunctionCall\<close>), the text \<^verbatim>\<open>%lf\<close> prints for a
  double, and the answers of the file system: whether \<^verbatim>\<open>pg_mkdir_p\<close> fails with an errno
  other than \<^verbatim>\<open>EEXIST\<close>, what \<^verbatim>\<open>PathNameOpenFile\<close> does for a path, and what
  \<^verbatim>\<open>FileWrite\<close> does for a path and the bytes to write (how many bytes it wrote, or the
  \<^verbatim>\<open>%m\<close> text or the message of the error it raised, and how many bytes reached the file).
  A double is the rational number it stands for.
\<close>

record env =
  YBIsQueryDiagnosticsEnabled :: bool
  DataDir :: string
  MAXPGPATH :: nat
  YB_QD_MAX_BIND_VARS_LEN :: nat
  hash_any :: "TimestampTz \<Rightarrow> 32 word"
  type_output :: "nat \<Rightarrow> 64 word \<Rightarrow> string"
  printf_lf :: "rat \<Rightarrow> string"
  pg_mkdir_p_fails :: "string \<Rightarrow> bool"
  PathNameOpenFile :: "string \<Rightarrow> open_outcome"
  FileWrite :: "string \<Rightarrow> string \<Rightarrow> write_outcome"

record YbQueryDiagnosticsEntry =
  metadata :: YbQueryDiagnosticsMetadata
  bind_vars :: string

text \<open>
  Modelled from the spec: the Active Session Table, a mapping from \<open>query_id\<close> to the
  session with at most one entry per key (\<^verbatim>\<open>hash_search\<close> and \<^verbatim>\<open>hash_seq_search\<close> of
  dynahash are not among the sources). The table is the list of its entries in the order
  \<^verbatim>\<open>hash_seq_search\<close> returns them, which the spec leaves open; a new entry goes to the end.
  \<^verbatim>\<open>HASH_FIND\<close> is \<^term>\<open>map_of\<close>, \<^verbatim>\<open>HASH_REMOVE\<close> is \<^term>\<open>AList.delete\<close>, and a write through
  the pointer \<^verbatim>\<open>HASH_FIND\<close> returned is \<^term>\<open>AList.update\<close>.
\<close>

type_synonym HTAB = "(int64 \<times> YbQueryDiagnosticsEntry) list"

text \<open>
  Shared memory and the file system: the hash table of bundles in progress, the circular
  buffer of completed bundles, the files written (path and content, last written first)
  and the directories made.
\<close>

record state =
  bundles_in_progress :: HTAB
  bundles_completed :: YbQueryDiagnosticsBundles
  files :: "(string \<times> string) list"
  dirs :: "string list"

subsection \<open>Starting a bundle\<close>

record FunctionCallInfo =
  arg0 :: int64
  arg1 :: int64
  arg2 :: int64
  arg3 :: bool
  arg4 :: bool
  arg5 :: bool
  arg6 :: int64

text \<open>\<^verbatim>\<open>FetchParams\<close>: the four checks in the order of the source.\<close>

definition FetchParams :: "FunctionCallInfo \<Rightarrow> error + YbQueryDiagnosticsParams" where
  "FetchParams fcinfo =
     (let p = \<lparr>query_id = arg0 fcinfo,
               diagnostics_interval_sec = arg1 fcinfo,
               explain_sample_rate = arg2 fcinfo,
               explain_analyze = arg3 fcinfo,
               explain_dist = arg4 fcinfo,
               explain_debug = arg5 fcinfo,
               bind_var_query_min_duration_ms = arg6 fcinfo\<rparr>
      in if query_id p = 0 then
           Inl (ereport_ERROR ERRCODE_INVALID_PARAMETER_VALUE
                  ''there cannot be a query with query_id 0'')
         else if sint (diagnostics_interval_sec p) \<le> 0 then
           Inl (ereport_ERROR ERRCODE_INVALID_PARAMETER_VALUE
                  ''diagnostics_interval_sec should be greater than 0'')
         else if sint (explain_sample_rate p) < 0 \<or> sint (explain_sample_rate p) > 100 then
           Inl (ereport_ERROR ERRCODE_INVALID_PARAMETER_VALUE
                  ''explain_sample_rate should be between 0 and 100'')
         else if sint (bind_var_query_min_duration_ms p) < 0 then
           Inl (ereport_ERROR ERRCODE_INVALID_PARAMETER_VALUE
                  ''bind_var_query_min_duration_ms cannot be less than 0'')
         else Inr p)"

text \<open>
  \<^verbatim>\<open>ConstructDiagnosticsPath\<close>: \<^verbatim>\<open>snprintf(path, MAXPGPATH, "%s/%s/%ld/%d/", DataDir,
  "query-diagnostics", query_id, rand_num)\<close>, where \<open>rand_num\<close> is the 32-bit hash of
  \<open>start_time\<close> read as an \<^verbatim>\<open>int\<close>.
\<close>

definition diagnostics_path_text :: "env \<Rightarrow> YbQueryDiagnosticsMetadata \<Rightarrow> string" where
  "diagnostics_path_text e md =
     (let rand_num = sint (hash_any e (start_time md))
      in cstr (DataDir e) @ ''/'' @ ''query-diagnostics'' @ ''/'' @
         dec_int (sint (query_id (params md))) @ ''/'' @ dec_int rand_num @ ''/'')"

definition ConstructDiagnosticsPath ::
  "env \<Rightarrow> YbQueryDiagnosticsMetadata \<Rightarrow> error + YbQueryDiagnosticsMetadata" where
  "ConstructDiagnosticsPath e md =
     (if length (diagnostics_path_text e md) \<ge> MAXPGPATH e then
        Inl (ereport_ERROR ERRCODE_PROGRAM_LIMIT_EXCEEDED ''Path to pg_data is too long'')
      else Inr (md\<lparr>path := diagnostics_path_text e md\<rparr>))"

text \<open>
  \<^verbatim>\<open>InsertNewBundleInfo\<close>: \<^verbatim>\<open>hash_search(..., HASH_ENTER, &found)\<close>; a key that is found
  leaves the table as it is and the error is raised after the lock is released.
\<close>

definition InsertNewBundleInfo ::
  "env \<Rightarrow> YbQueryDiagnosticsMetadata \<Rightarrow> state \<Rightarrow> (error + unit) \<times> state" where
  "InsertNewBundleInfo e md s =
     (let key = query_id (params md)
      in case map_of (bundles_in_progress s) key of
           None \<Rightarrow>
             (Inr (),
              s\<lparr>bundles_in_progress :=
                  bundles_in_progress s @
                  [(key, \<lparr>metadata = md,
                          bind_vars = MemSet0 (YB_QD_MAX_BIND_VARS_LEN e)\<rparr>)]\<rparr>)
         | Some entry \<Rightarrow>
             (Inl (ereport_ERROR ERRCODE_DUPLICATE_OBJECT
                     (''Query diagnostics for query_id[ '' @ dec_int (sint key) @
                      '' ] is already being generated'')),
              s))"

text \<open>
  \<^verbatim>\<open>yb_query_diagnostics\<close>; \<open>now\<close> is what \<^verbatim>\<open>GetCurrentTimestamp\<close> returns. The \<^verbatim>\<open>path\<close>
  array is not initialised before \<^verbatim>\<open>ConstructDiagnosticsPath\<close> fills it.
\<close>

definition yb_query_diagnostics ::
  "env \<Rightarrow> TimestampTz \<Rightarrow> FunctionCallInfo \<Rightarrow> state \<Rightarrow> (error + string) \<times> state" where
  "yb_query_diagnostics e now fcinfo s =
     (if \<not> YBIsQueryDiagnosticsEnabled e then
        (Inl (ereport_ERROR ERRCODE_OBJECT_NOT_IN_PREREQUISITE_STATE
                ''query diagnostics is not enabled''), s)
      else case FetchParams fcinfo of
        Inl err \<Rightarrow> (Inl err, s)
      | Inr p \<Rightarrow>
         (case ConstructDiagnosticsPath e \<lparr>params = p, start_time = now, path = []\<rparr> of
            Inl err \<Rightarrow> (Inl err, s)
          | Inr md \<Rightarrow>
             (case InsertNewBundleInfo e md s of
                (Inl err, s') \<Rightarrow> (Inl err, s')
              | (Inr u, s') \<Rightarrow> (Inr (path md), s'))))"

subsection \<open>The executor hook\<close>

record ParamExternData =
  pvalue :: "64 word"
  isnull :: bool
  ptype :: nat

type_synonym ParamListInfo = "ParamExternData list"

text \<open>
  What the hook reads of a \<^verbatim>\<open>QueryDesc\<close>: \<^verbatim>\<open>plannedstmt->queryId\<close>, the total time in
  milliseconds (\<^verbatim>\<open>INSTR_TIME_GET_MILLISEC(totaltime->counter)\<close>) and \<^verbatim>\<open>params\<close>, which may
  be a null pointer.
\<close>

record QueryDesc =
  queryId :: int64
  totaltime_ms :: rat
  qd_params :: "ParamListInfo option"

text \<open>
  \<^verbatim>\<open>FormatParams\<close>: the loop over the parameters, appending to \<open>buf\<close>. A null parameter
  appends \<^verbatim>\<open>"NULL"\<close>, any other one \<^verbatim>\<open>"%s,"\<close> of its output text.
\<close>

fun FormatParams :: "env \<Rightarrow> string \<Rightarrow> ParamListInfo \<Rightarrow> string" where
  "FormatParams e buf [] = buf"
| "FormatParams e buf (p # ps) =
     FormatParams e
       (if isnull p then buf @ ''NULL''
        else buf @ cstr (type_output e (ptype p) (pvalue p)) @ '','')
       ps"

text \<open>
  The lock operations of the hook are kept as events, in program order, next to the state
  it returns: on \<^verbatim>\<open>bundles_in_progress_lock\<close> (\<open>LWLockAcquire\<close>, \<open>LWLockRelease\<close>), on the
  entry's \<^verbatim>\<open>mutex\<close> (\<open>SpinLockAcquire\<close>, \<open>SpinLockRelease\<close>), and the formatting of the
  sample (\<^verbatim>\<open>FormatParams\<close> and the \<^verbatim>\<open>appendStringInfo\<close> after it).
\<close>

datatype LWLockMode = LW_EXCLUSIVE | LW_SHARED

datatype event =
    LWLockAcquire LWLockMode
  | LWLockRelease
  | SpinLockAcquire
  | SpinLockRelease
  | Formatting

text \<open>The text of one sample: the parameters, then \<^verbatim>\<open>"%lf\n"\<close> of the total time.\<close>

definition sample_line :: "env \<Rightarrow> rat \<Rightarrow> ParamListInfo \<Rightarrow> string" where
  "sample_line e totaltime ps =
     FormatParams e [] ps @ cstr (printf_lf e totaltime) @ [CHR 0x0A]"

text \<open>\<^verbatim>\<open>AccumulateBindVariables\<close>.\<close>

definition AccumulateBindVariables ::
  "env \<Rightarrow> YbQueryDiagnosticsEntry \<Rightarrow> rat \<Rightarrow> ParamListInfo \<Rightarrow>
   event list \<times> YbQueryDiagnosticsEntry" where
  "AccumulateBindVariables e entry totaltime ps =
     (let is_full = (strlen (bind_vars entry) = YB_QD_MAX_BIND_VARS_LEN e - 1)
      in if is_full then ([SpinLockAcquire, SpinLockRelease], entry)
         else
           let buf = sample_line e totaltime ps
           in ([SpinLockAcquire, SpinLockRelease, Formatting, SpinLockAcquire, SpinLockRelease],
               if strlen (bind_vars entry) + length buf < YB_QD_MAX_BIND_VARS_LEN e
               then entry\<lparr>bind_vars :=
                             memcpy (bind_vars entry) (strlen (bind_vars entry)) buf\<rparr>
               else entry))"

text \<open>
  \<^verbatim>\<open>YbQueryDiagnostics_ExecutorEnd\<close>, up to the call of the previous hook. The comparison
  of the threshold with the total time is the one of the numbers they stand for.
\<close>

definition YbQueryDiagnostics_ExecutorEnd ::
  "env \<Rightarrow> QueryDesc \<Rightarrow> state \<Rightarrow> event list \<times> state" where
  "YbQueryDiagnostics_ExecutorEnd e queryDesc s =
     (case map_of (bundles_in_progress s) (queryId queryDesc) of
        None \<Rightarrow> ([LWLockAcquire LW_SHARED, LWLockRelease], s)
      | Some entry \<Rightarrow>
         (case qd_params queryDesc of
            None \<Rightarrow> ([LWLockAcquire LW_SHARED, LWLockRelease], s)
          | Some ps \<Rightarrow>
             if of_int (sint (bind_var_query_min_duration_ms (params (metadata entry))))
                  \<le> totaltime_ms queryDesc
             then
               let (evs, entry') =
                     AccumulateBindVariables e entry (totaltime_ms queryDesc) ps
               in ([LWLockAcquire LW_SHARED] @ evs @ [LWLockRelease],
                   s\<lparr>bundles_in_progress :=
                        AList.update (queryId queryDesc) entry' (bundles_in_progress s)\<rparr>)
             else ([LWLockAcquire LW_SHARED, LWLockRelease], s)))"

text \<open>The hook on a run of query executions; the events of each, in order.\<close>

fun ExecutorEnd_all :: "env \<Rightarrow> QueryDesc list \<Rightarrow> state \<Rightarrow> event list \<times> state" where
  "ExecutorEnd_all e [] s = ([], s)"
| "ExecutorEnd_all e (q # qs) s =
     (let (evs, s') = YbQueryDiagnostics_ExecutorEnd e q s;
          (evs', s'') = ExecutorEnd_all e qs s'
      in (evs @ evs', s''))"

subsection \<open>The background worker\<close>

text \<open>
  Modelled from the spec: \<^verbatim>\<open>USECS_PER_SEC\<close>, the factor that converts the interval to the
  timestamp's microsecond unit (the constant is declared in a header that is not among the
  sources).
\<close>

definition USECS_PER_SEC :: int64 where
  "USECS_PER_SEC = 1000000"

text \<open>\<^verbatim>\<open>HasBundleExpired\<close>, in the 64-bit arithmetic of \<^verbatim>\<open>TimestampTz\<close>.\<close>

definition HasBundleExpired :: "YbQueryDiagnosticsEntry \<Rightarrow> TimestampTz \<Rightarrow> bool" where
  "HasBundleExpired entry current_time =
     (sint current_time \<ge>
      sint (start_time (metadata entry) +
            diagnostics_interval_sec (params (metadata entry)) * USECS_PER_SEC))"

text \<open>Writing a file: the path holds the new content, whatever it held before.\<close>

definition write_file :: "string \<Rightarrow> string \<Rightarrow> (string \<times> string) list \<Rightarrow> (string \<times> string) list" where
  "write_file p content fs = (p, content) # AList.delete p fs"

text \<open>
  The \<^verbatim>\<open>file_path\<close> of \<^verbatim>\<open>DumpToFile\<close>: \<^verbatim>\<open>snprintf(file_path, file_path_len, "%s/%s", path,
  file_name)\<close> with \<^verbatim>\<open>file_path_len = MAXPGPATH + strlen(file_name) + 1\<close>.
\<close>

definition DumpToFile_file_path :: "env \<Rightarrow> string \<Rightarrow> string \<Rightarrow> string" where
  "DumpToFile_file_path e path' file_name =
     snprintf (MAXPGPATH e + strlen file_name + 1) (cstr path' @ ''/'' @ cstr file_name)"

text \<open>
  \<^verbatim>\<open>DumpToFile\<close>: \<open>data\<close> is the character array, \<open>description\<close> the C string the caller's
  array holds on entry; the result is the status, the description on return and the files.
  A file that was opened is truncated, and holds what the write got through.
\<close>

definition DumpToFile ::
  "env \<Rightarrow> string \<Rightarrow> string \<Rightarrow> string \<Rightarrow> string \<Rightarrow> (string \<times> string) list \<Rightarrow>
   bundle_status \<times> string \<times> (string \<times> string) list" where
  "DumpToFile e path' file_name data description' fs =
     (if (case data of [] \<Rightarrow> True | c # cs \<Rightarrow> c = NUL) then
        (DIAGNOSTICS_SUCCESS, snprintf DESCRIPTION_LEN ''No data captured'', fs)
      else
        let file_path = DumpToFile_file_path e path' file_name;
            (d, fs') =
              (case PathNameOpenFile e file_path of
                 OpenReturnsNegative m \<Rightarrow>
                   (snprintf DESCRIPTION_LEN
                      (''out of file descriptors: '' @ m @ ''; release and retry''), fs)
               | OpenRaises m \<Rightarrow> (snprintf DESCRIPTION_LEN m, fs)
               | Opened \<Rightarrow>
                  (case FileWrite e file_path (cstr data) of
                     WriteReturns n \<Rightarrow>
                       (description', write_file file_path (take n (cstr data)) fs)
                   | WriteReturnsNegative m n \<Rightarrow>
                       (snprintf DESCRIPTION_LEN (''Error writing to file; '' @ m),
                        write_file file_path (take n (cstr data)) fs)
                   | WriteRaises m n \<Rightarrow>
                       (snprintf DESCRIPTION_LEN m,
                        write_file file_path (take n (cstr data)) fs)))
        in (if d = [] then DIAGNOSTICS_SUCCESS else DIAGNOSTICS_ERROR, d, fs'))"

text \<open>
  The body of the loop of \<^verbatim>\<open>RemoveExpiredEntries\<close> for an entry that has expired: copy,
  make the directory, dump, insert into the circular buffer, remove from the hash table.
\<close>

definition finish_bundle :: "env \<Rightarrow> YbQueryDiagnosticsEntry \<Rightarrow> state \<Rightarrow> state option" where
  "finish_bundle e entry s =
     (let bind_var_copy = bind_vars entry;
          metadata_copy = metadata entry;
          description' = [];
          (st, d, ds, fs) =
            (if pg_mkdir_p_fails e (path metadata_copy) then
               (DIAGNOSTICS_ERROR,
                snprintf DESCRIPTION_LEN ''Failed to create query diagnostics directory'',
                dirs s, files s)
             else
               let (dumped, d', fs') =
                     DumpToFile e (path metadata_copy) ''bind_variables.csv''
                       bind_var_copy description' (files s)
               in (dumped, d', List.insert (path metadata_copy) (dirs s), fs'))
      in case InsertCompletedBundleInfo metadata_copy st d (bundles_completed s) of
           None \<Rightarrow> None
         | Some bc \<Rightarrow>
             Some \<lparr>bundles_in_progress =
                     AList.delete (query_id (params metadata_copy)) (bundles_in_progress s),
                   bundles_completed = bc, files = fs, dirs = ds\<rparr>)"

text \<open>The scan of the hash table, over the entries \<^verbatim>\<open>hash_seq_search\<close> returns.\<close>

fun scan_entries ::
  "env \<Rightarrow> TimestampTz \<Rightarrow> (int64 \<times> YbQueryDiagnosticsEntry) list \<Rightarrow> state \<Rightarrow> state option" where
  "scan_entries e current_time [] s = Some s"
| "scan_entries e current_time ((k, entry) # rest) s =
     (if HasBundleExpired entry current_time then
        (case finish_bundle e entry s of
           None \<Rightarrow> None
         | Some s' \<Rightarrow> scan_entries e current_time rest s')
      else scan_entries e current_time rest s)"

text \<open>\<^verbatim>\<open>RemoveExpiredEntries\<close>; \<open>current_time\<close> is what \<^verbatim>\<open>GetCurrentTimestamp\<close> returns.\<close>

definition RemoveExpiredEntries :: "env \<Rightarrow> TimestampTz \<Rightarrow> state \<Rightarrow> state option" where
  "RemoveExpiredEntries e current_time s =
     scan_entries e current_time (bundles_in_progress s) s"

subsection \<open>The status function\<close>

definition ProcessActiveBundles :: "HTAB \<Rightarrow> status_row list" where
  "ProcessActiveBundles tab =
     map (\<lambda>(k, entry). OutputBundle (metadata entry) [] (status_msg DIAGNOSTICS_IN_PROGRESS)) tab"

text \<open>What \<^verbatim>\<open>yb_get_query_diagnostics_status\<close> checks of its caller.\<close>

record ReturnSetInfo =
  is_ReturnSetInfo :: bool
  allows_SFRM_Materialize :: bool
  result_is_composite :: bool

definition yb_get_query_diagnostics_status ::
  "env \<Rightarrow> ReturnSetInfo \<Rightarrow> state \<Rightarrow> error + status_row list" where
  "yb_get_query_diagnostics_status e rsinfo s =
     (if \<not> YBIsQueryDiagnosticsEnabled e then
        Inl (ereport_ERROR ERRCODE_OBJECT_NOT_IN_PREREQUISITE_STATE
               ''TEST_yb_enable_query_diagnostics gflag must be true'')
      else if \<not> is_ReturnSetInfo rsinfo then
        Inl (ereport_ERROR ERRCODE_FEATURE_NOT_SUPPORTED
               ''set-valued function called in context that cannot accept a set'')
      else if \<not> allows_SFRM_Materialize rsinfo then
        Inl (ereport_ERROR ERRCODE_FEATURE_NOT_SUPPORTED
               ''materialize mode required, but it is not allowed in this context'')
      else if \<not> result_is_composite rsinfo then
        Inl (ereport_ERROR ERRCODE_INTERNAL_ERROR ''return type must be a row type'')
      else Inr (ProcessActiveBundles (bundles_in_progress s) @
                ProcessCompletedBundles (bundles_completed s)))"

subsection \<open>Notions of the specification\<close>

text \<open>The bounds of the specification on the arguments of a call.\<close>

definition valid_arguments :: "FunctionCallInfo \<Rightarrow> bool" where
  "valid_arguments fcinfo =
     (arg0 fcinfo \<noteq> 0 \<and> 0 < sint (arg1 fcinfo) \<and>
      0 \<le> sint (arg2 fcinfo) \<and> sint (arg2 fcinfo) \<le> 100 \<and>
      0 \<le> sint (arg6 fcinfo))"



text \<open>
  The hash table as \<^verbatim>\<open>InsertNewBundleInfo\<close> builds it: one entry per key, and the key of an
  entry is the query id of its metadata.
\<close>

definition table_ok :: "HTAB \<Rightarrow> bool" where
  "table_ok tab =
     (distinct (map fst tab) \<and>
      list_all (\<lambda>(k, entry). query_id (params (metadata entry)) = k) tab)"


text \<open>
  What a slot of the circular buffer, and a record given to \<^verbatim>\<open>InsertCompletedBundleInfo\<close>,
  hold apart from the description, and the row of the status view for it.
\<close>

definition slot_view :: "BundleInfo \<Rightarrow> YbQueryDiagnosticsMetadata \<times> bundle_status" where
  "slot_view b = (bmetadata b, status b)"

definition record_view ::
  "YbQueryDiagnosticsMetadata \<times> bundle_status \<times> string \<Rightarrow>
   YbQueryDiagnosticsMetadata \<times> bundle_status" where
  "record_view r = (fst r, fst (snd r))"

definition view_row :: "YbQueryDiagnosticsMetadata \<times> bundle_status \<Rightarrow> status_row" where
  "view_row v = OutputBundle (fst v) [] (status_msg (snd v))"

text \<open>A row of the status view with its description left out.\<close>

definition blank_description :: "status_row \<Rightarrow> status_row" where
  "blank_description r = r\<lparr>col_description := []\<rparr>"

text \<open>
  A character array of \<open>m\<close> bytes holds the text \<open>c\<close>: the text, which has no NUL byte and
  is shorter than the array, and then NUL bytes to the end.
\<close>

definition holds_text :: "nat \<Rightarrow> string \<Rightarrow> string \<Rightarrow> bool" where
  "holds_text m bv c =
     (bv = c @ replicate (m - length c) NUL \<and> NUL \<notin> set c \<and> length c < m)"

text \<open>
  The lines a session accepts of the lines offered to it, in arrival order: a line is
  accepted when it fits in what is left of a buffer of \<open>m\<close> bytes that holds \<open>used\<close> bytes,
  and dropped otherwise.
\<close>

fun accepted :: "nat \<Rightarrow> nat \<Rightarrow> string list \<Rightarrow> string list" where
  "accepted m used [] = []"
| "accepted m used (l # ls) =
     (if used + length l < m then l # accepted m (used + length l) ls
      else accepted m used ls)"

text \<open>
  The lines the executions \<open>qs\<close> offer to the session of query \<open>q\<close> whose threshold is
  \<open>min_duration\<close>: one for each execution of \<open>q\<close> that has bound parameters and took at
  least the threshold.
\<close>

fun offered :: "env \<Rightarrow> int64 \<Rightarrow> int64 \<Rightarrow> QueryDesc list \<Rightarrow> string list" where
  "offered e q min_duration [] = []"
| "offered e q min_duration (d # ds) =
     (case qd_params d of
        Some ps \<Rightarrow>
          if queryId d = q \<and> of_int (sint min_duration) \<le> totaltime_ms d
          then sample_line e (totaltime_ms d) ps # offered e q min_duration ds
          else offered e q min_duration ds
      | None \<Rightarrow> offered e q min_duration ds)"

text \<open>
  The text of a session after the executions \<open>qs\<close>: the lines it accepted, one after the
  other in arrival order, from an empty buffer.
\<close>

definition session_text :: "env \<Rightarrow> int64 \<Rightarrow> int64 \<Rightarrow> QueryDesc list \<Rightarrow> string" where
  "session_text e q min_duration qs =
     concat (accepted (YB_QD_MAX_BIND_VARS_LEN e) 0 (offered e q min_duration qs))"

text \<open>
  The locks held at each formatting of a run of events: the mode in which
  \<^verbatim>\<open>bundles_in_progress_lock\<close> is held, if it is, and whether the entry's mutex is held.
\<close>

fun locks_at_Formatting ::
  "LWLockMode option \<Rightarrow> bool \<Rightarrow> event list \<Rightarrow> (LWLockMode option \<times> bool) list" where
  "locks_at_Formatting lw spin [] = []"
| "locks_at_Formatting lw spin (LWLockAcquire m # evs) = locks_at_Formatting (Some m) spin evs"
| "locks_at_Formatting lw spin (LWLockRelease # evs) = locks_at_Formatting None spin evs"
| "locks_at_Formatting lw spin (SpinLockAcquire # evs) = locks_at_Formatting lw True evs"
| "locks_at_Formatting lw spin (SpinLockRelease # evs) = locks_at_Formatting lw False evs"
| "locks_at_Formatting lw spin (Formatting # evs) = (lw, spin) # locks_at_Formatting lw spin evs"







subsection \<open>Example inputs\<close>

text \<open>
  \<^verbatim>\<open>%lf\<close> for the example environment: six decimals, rounded, of a time that is not
  negative.
\<close>

definition example_printf_lf :: "rat \<Rightarrow> string" where
  "example_printf_lf t =
     (let n = \<lfloor>t * 1000000 + 1 / 2\<rfloor>;
          frac = dec_digits (n mod 1000000)
      in dec_digits (n div 1000000) @ ''.'' @ replicate (6 - length frac) CHR ''0'' @ frac)"

text \<open>
  An environment with a buffer of 40 bytes for the bind variables, a file system on which
  every operation succeeds, integers (type 23) printed in decimal and any other value as
  the character of its low byte.
\<close>

definition example_env :: env where
  "example_env =
     \<lparr>YBIsQueryDiagnosticsEnabled = True, DataDir = ''/pg'', MAXPGPATH = 1024,
      YB_QD_MAX_BIND_VARS_LEN = 40,
      hash_any = (\<lambda>t. ucast t + 7),
      type_output = (\<lambda>ty v. if ty = 23 then dec_int (sint v) else [char_of (unat v)]),
      printf_lf = example_printf_lf,
      pg_mkdir_p_fails = (\<lambda>p. False),
      PathNameOpenFile = (\<lambda>p. Opened),
      FileWrite = (\<lambda>p d. WriteReturns (length d))\<rparr>"

text \<open>The same environment on a file system where no directory can be made.\<close>

definition example_env_no_mkdir :: env where
  "example_env_no_mkdir = example_env\<lparr>pg_mkdir_p_fails := (\<lambda>p. True)\<rparr>"

definition example_fcinfo :: "int64 \<Rightarrow> int64 \<Rightarrow> int64 \<Rightarrow> int64 \<Rightarrow> FunctionCallInfo" where
  "example_fcinfo q interval rate min_duration =
     \<lparr>arg0 = q, arg1 = interval, arg2 = rate, arg3 = True, arg4 = False, arg5 = False,
      arg6 = min_duration\<rparr>"

definition example_metadata :: "int64 \<Rightarrow> YbQueryDiagnosticsMetadata" where
  "example_metadata q =
     \<lparr>params = \<lparr>query_id = q, diagnostics_interval_sec = 5, explain_sample_rate = 10,
                explain_analyze = True, explain_dist = False, explain_debug = False,
                bind_var_query_min_duration_ms = 0\<rparr>,
      start_time = 1000,
      path = ''/pg/query-diagnostics/'' @ dec_int (sint q) @ ''/1007/''\<rparr>"

text \<open>Shared memory at start, with a circular buffer of two slots.\<close>

definition example_state :: state where
  "example_state =
     \<lparr>bundles_in_progress = [], bundles_completed = bundles_completed_init 2,
      files = [], dirs = []\<rparr>"

text \<open>The state after a bundle for query 42 was started at time 1000, for 5 seconds.\<close>

definition example_state_42 :: state where
  "example_state_42 =
     example_state\<lparr>bundles_in_progress :=
       [(42, \<lparr>metadata = example_metadata 42, bind_vars = MemSet0 40\<rparr>)]\<rparr>"

definition param_int :: "64 word \<Rightarrow> ParamExternData" where
  "param_int v = \<lparr>pvalue = v, isnull = False, ptype = 23\<rparr>"

definition param_text :: "64 word \<Rightarrow> ParamExternData" where
  "param_text v = \<lparr>pvalue = v, isnull = False, ptype = 25\<rparr>"

definition param_null :: ParamExternData where
  "param_null = \<lparr>pvalue = 0, isnull = True, ptype = 23\<rparr>"

definition example_QueryDesc :: "int64 \<Rightarrow> ParamListInfo \<Rightarrow> QueryDesc" where
  "example_QueryDesc q ps = \<lparr>queryId = q, totaltime_ms = 123 / 10, qd_params = Some ps\<rparr>"

text \<open>A state with a bundle in progress for query 7.\<close>

definition example_state_7 :: state where
  "example_state_7 =
     example_state\<lparr>bundles_in_progress :=
       [(7, \<lparr>metadata = example_metadata 7, bind_vars = MemSet0 40\<rparr>)]\<rparr>"




text \<open>
  Four executions of query 42 and one of query 7, of 12.3 ms each: with the parameters 1 and
  a, with a null and 1, with a null, 1 and a, with the parameter 1 for query 7, and with a
  null alone.
\<close>

definition example_executions :: "QueryDesc list" where
  "example_executions =
     [example_QueryDesc 42 [param_int 1, param_text 97],
      example_QueryDesc 42 [param_null, param_int 1],
      example_QueryDesc 42 [param_null, param_int 1, param_text 97],
      example_QueryDesc 7 [param_int 1],
      example_QueryDesc 42 [param_null]]"

text \<open>
  A run with a circular buffer of one slot. A bundle for query 1 is started and expires
  with no execution of the query; then a bundle for query 2 is started, the query is
  executed once with the parameters 1 and a, and the bundle expires. The result is what
  the status function returns at the end.
\<close>

definition example_run_two_bundles :: "(error + status_row list) option" where
  "example_run_two_bundles =
     (let s0 = example_state\<lparr>bundles_completed := bundles_completed_init 1\<rparr>;
          s1 = snd (yb_query_diagnostics example_env 1000 (example_fcinfo 1 5 10 0) s0)
      in case RemoveExpiredEntries example_env 5001000 s1 of
           None \<Rightarrow> None
         | Some s2 \<Rightarrow>
            let s3 = snd (yb_query_diagnostics example_env 6000000 (example_fcinfo 2 5 10 0) s2);
                s4 = snd (YbQueryDiagnostics_ExecutorEnd example_env
                            (example_QueryDesc 2 [param_int 1, param_text 97]) s3)
            in case RemoveExpiredEntries example_env 11000000 s4 of
                 None \<Rightarrow> None
               | Some s5 \<Rightarrow>
                   Some (yb_get_query_diagnostics_status example_env
                           \<lparr>is_ReturnSetInfo = True, allows_SFRM_Materialize = True,
                            result_is_composite = True\<rparr> s5))"

section \<open>Properties\<close>

subsection \<open>Starting a bundle for a query that already has one\<close>

lemma InsertNewBundleInfo_found:
  assumes "map_of (bundles_in_progress s) (query_id (params md)) = Some entry"
  shows "InsertNewBundleInfo e md s =
           (Inl (ereport_ERROR ERRCODE_DUPLICATE_OBJECT
                   (''Query diagnostics for query_id[ '' @
                    dec_int (sint (query_id (params md))) @
                    '' ] is already being generated'')), s)"
  using assms by (simp add: InsertNewBundleInfo_def)

lemma FetchParams_query_id: "FetchParams fcinfo = Inr p \<Longrightarrow> query_id p = arg0 fcinfo"
  by (auto simp: FetchParams_def Let_def split: if_splits)

lemma ConstructDiagnosticsPath_params:
  "ConstructDiagnosticsPath e md = Inr md' \<Longrightarrow> params md' = params md"
  by (auto simp: ConstructDiagnosticsPath_def split: if_splits)

text \<open>
  Claim C1. A call of \<^verbatim>\<open>yb_query_diagnostics\<close> for a query id that has an entry in the hash
  table of bundles in progress fails and changes nothing: the state it returns is the state
  it was given, so the table still maps the query id to the same entry, with the same
  metadata and the same buffer, and no entry was added or removed. When the call gets as
  far as the insertion (the feature is enabled, the arguments pass \<^verbatim>\<open>FetchParams\<close> and the
  path fits), \<^verbatim>\<open>InsertNewBundleInfo\<close> raises the duplicate-object error, and that is the
  error of the call.
\<close>

theorem C1_duplicate_begin_no_mutation:
  assumes "map_of (bundles_in_progress s) (arg0 fcinfo) = Some entry"
  shows "snd (yb_query_diagnostics e now fcinfo s) = s \<and>
         isl (fst (yb_query_diagnostics e now fcinfo s)) \<and>
         (\<forall>p md. YBIsQueryDiagnosticsEnabled e \<and> FetchParams fcinfo = Inr p \<and>
             ConstructDiagnosticsPath e \<lparr>params = p, start_time = now, path = []\<rparr> = Inr md \<longrightarrow>
             InsertNewBundleInfo e md s =
               (Inl (ereport_ERROR ERRCODE_DUPLICATE_OBJECT
                  (''Query diagnostics for query_id[ '' @ dec_int (sint (arg0 fcinfo)) @
                   '' ] is already being generated'')), s) \<and>
             yb_query_diagnostics e now fcinfo s =
               (Inl (ereport_ERROR ERRCODE_DUPLICATE_OBJECT
                  (''Query diagnostics for query_id[ '' @ dec_int (sint (arg0 fcinfo)) @
                   '' ] is already being generated'')), s))"
proof -
  have ins: "InsertNewBundleInfo e md s =
               (Inl (ereport_ERROR ERRCODE_DUPLICATE_OBJECT
                  (''Query diagnostics for query_id[ '' @ dec_int (sint (arg0 fcinfo)) @
                   '' ] is already being generated'')), s)"
    if "FetchParams fcinfo = Inr p"
       "ConstructDiagnosticsPath e \<lparr>params = p, start_time = now, path = []\<rparr> = Inr md"
    for p md
  proof -
    have "query_id (params md) = arg0 fcinfo"
      using that FetchParams_query_id ConstructDiagnosticsPath_params by fastforce
    with assms show ?thesis
      using InsertNewBundleInfo_found [of s md entry e] by simp
  qed
  show ?thesis
    by (auto simp: yb_query_diagnostics_def ins split: sum.splits prod.splits)
qed

theorem C1_duplicate_begin_witness:
  "map_of (bundles_in_progress example_state_42) (arg0 (example_fcinfo 42 5 10 0)) =
     Some \<lparr>metadata = example_metadata 42, bind_vars = MemSet0 40\<rparr> \<and>
   yb_query_diagnostics example_env 1000 (example_fcinfo 42 5 10 0) example_state_42 =
     (Inl (ereport_ERROR ERRCODE_DUPLICATE_OBJECT
             ''Query diagnostics for query_id[ 42 ] is already being generated''),
      example_state_42)"
proof -
  have h: "map_of (bundles_in_progress example_state_42) (arg0 (example_fcinfo 42 5 10 0)) =
             Some \<lparr>metadata = example_metadata 42, bind_vars = MemSet0 40\<rparr>"
    by code_simp
  have en: "YBIsQueryDiagnosticsEnabled example_env"
    by code_simp
  have fp: "FetchParams (example_fcinfo 42 5 10 0) = Inr (params (example_metadata 42))"
    by code_simp
  have cp: "ConstructDiagnosticsPath example_env
              \<lparr>params = params (example_metadata 42), start_time = 1000, path = []\<rparr> =
            Inr (example_metadata 42)"
    by code_simp
  have dec42: "dec_int (sint (arg0 (example_fcinfo 42 5 10 0))) = ''42''"
    by code_simp
  from C1_duplicate_begin_no_mutation [OF h, of example_env 1000] en fp cp
  have "yb_query_diagnostics example_env 1000 (example_fcinfo 42 5 10 0) example_state_42 =
          (Inl (ereport_ERROR ERRCODE_DUPLICATE_OBJECT
                  (''Query diagnostics for query_id[ '' @
                   dec_int (sint (arg0 (example_fcinfo 42 5 10 0))) @
                   '' ] is already being generated'')), example_state_42)"
    by blast
  with h dec42 show ?thesis by simp
qed

subsection \<open>The text of a sample\<close>

text \<open>
  Claim C3. The line of a sample is the text of its parameters, each value followed by a
  comma, then the total time and a newline: the parameters 1 and a with a total time of
  12.3 ms give \<^verbatim>\<open>1,a,12.300000\<close> and a newline. A null parameter is written as \<^verbatim>\<open>NULL\<close> with
  no comma after it: a null followed by 1 gives \<^verbatim>\<open>NULL1,12.300000\<close>, where a comma-separated
  line has \<^verbatim>\<open>NULL,1,12.300000\<close>.
\<close>

theorem C3_null_parameter_is_not_followed_by_a_comma:
  "sample_line example_env (123 / 10) [param_int 1, param_text 97] =
     ''1,a,12.300000'' @ [CHR 0x0A] \<and>
   sample_line example_env (123 / 10) [param_null, param_int 1] =
     ''NULL1,12.300000'' @ [CHR 0x0A] \<and>
   sample_line example_env (123 / 10) [param_null, param_int 1] \<noteq>
     ''NULL,1,12.300000'' @ [CHR 0x0A]"
  by code_simp

subsection \<open>The description of a completed bundle\<close>

text \<open>
  Claim C4. The description a row of the status view shows for a completed bundle is not
  always the description it finished with. In a circular buffer of one slot, a bundle that
  finishes with the description \<^verbatim>\<open>No data captured\<close> is followed by a bundle that finishes
  with an empty description (its data was written): the row of the second bundle shows
  \<^verbatim>\<open>No data captured\<close>, the bytes the copy of the empty description left in the slot. This
  is so for the two insertions alone, and for the run from the start of the bundles to the
  status view.
\<close>

theorem C4_description_keeps_bytes_of_the_previous_record:
  "map_option (map (\<lambda>r. (col_query_id r, col_status r, col_description r)) \<circ>
               ProcessCompletedBundles)
     (InsertAll [(example_metadata 1, DIAGNOSTICS_SUCCESS, ''No data captured''),
                 (example_metadata 2, DIAGNOSTICS_SUCCESS, [])]
        (bundles_completed_init 1)) =
   Some [(2, ''Success'', ''No data captured'')] \<and>
   map_option (map_sum id (map (\<lambda>r. (col_query_id r, col_status r, col_description r))))
     example_run_two_bundles =
   Some (Inr [(2, ''Success'', ''No data captured'')])"
  by code_simp

subsection \<open>Validation of the arguments\<close>

lemma FetchParams_valid:
  "valid_arguments fcinfo \<Longrightarrow>
   FetchParams fcinfo =
     Inr \<lparr>query_id = arg0 fcinfo, diagnostics_interval_sec = arg1 fcinfo,
          explain_sample_rate = arg2 fcinfo, explain_analyze = arg3 fcinfo,
          explain_dist = arg4 fcinfo, explain_debug = arg5 fcinfo,
          bind_var_query_min_duration_ms = arg6 fcinfo\<rparr>"
  by (simp add: FetchParams_def valid_arguments_def Let_def)

lemma FetchParams_invalid:
  "\<not> valid_arguments fcinfo \<Longrightarrow>
   \<exists>m. FetchParams fcinfo = Inl (ereport_ERROR ERRCODE_INVALID_PARAMETER_VALUE m)"
  by (auto simp: FetchParams_def valid_arguments_def Let_def)

text \<open>
  Claim C7. \<^verbatim>\<open>FetchParams\<close> accepts the arguments exactly when the query id is not zero,
  the interval is positive, the sample rate is between 0 and 100 and the duration
  threshold is not negative. Otherwise it raises an invalid-parameter error, and
  \<^verbatim>\<open>yb_query_diagnostics\<close> fails and returns the state it was given; with the feature
  enabled its error is that invalid-parameter error. The example after the theorem has the
  sample rates 0, 100, -1 and 101, a zero query id, a zero interval and a negative threshold.
\<close>

theorem C7_arguments_validated_before_any_mutation:
  "(valid_arguments fcinfo \<longrightarrow>
      FetchParams fcinfo =
        Inr \<lparr>query_id = arg0 fcinfo, diagnostics_interval_sec = arg1 fcinfo,
             explain_sample_rate = arg2 fcinfo, explain_analyze = arg3 fcinfo,
             explain_dist = arg4 fcinfo, explain_debug = arg5 fcinfo,
             bind_var_query_min_duration_ms = arg6 fcinfo\<rparr>) \<and>
   (\<not> valid_arguments fcinfo \<longrightarrow>
      (\<exists>m. FetchParams fcinfo = Inl (ereport_ERROR ERRCODE_INVALID_PARAMETER_VALUE m)) \<and>
      snd (yb_query_diagnostics e now fcinfo s) = s \<and>
      isl (fst (yb_query_diagnostics e now fcinfo s)) \<and>
      (YBIsQueryDiagnosticsEnabled e \<longrightarrow>
         (\<exists>m. yb_query_diagnostics e now fcinfo s =
                (Inl (ereport_ERROR ERRCODE_INVALID_PARAMETER_VALUE m), s))))"
proof (cases "valid_arguments fcinfo")
  case True
  then show ?thesis using FetchParams_valid by simp
next
  case False
  then obtain m where
    "FetchParams fcinfo = Inl (ereport_ERROR ERRCODE_INVALID_PARAMETER_VALUE m)"
    using FetchParams_invalid by blast
  with False show ?thesis
    by (simp add: yb_query_diagnostics_def)
qed

theorem C7_arguments_validated_witness:
  "(\<exists>p. FetchParams (example_fcinfo 42 5 0 0) = Inr p) \<and>
   (\<exists>p. FetchParams (example_fcinfo 42 5 100 0) = Inr p) \<and>
   (\<exists>m. yb_query_diagnostics example_env 1000 (example_fcinfo 42 5 (- 1) 0) example_state =
          (Inl (ereport_ERROR ERRCODE_INVALID_PARAMETER_VALUE m), example_state)) \<and>
   (\<exists>m. yb_query_diagnostics example_env 1000 (example_fcinfo 42 5 101 0) example_state =
          (Inl (ereport_ERROR ERRCODE_INVALID_PARAMETER_VALUE m), example_state)) \<and>
   (\<exists>m. yb_query_diagnostics example_env 1000 (example_fcinfo 0 5 10 0) example_state_42 =
          (Inl (ereport_ERROR ERRCODE_INVALID_PARAMETER_VALUE m), example_state_42)) \<and>
   (\<exists>m. yb_query_diagnostics example_env 1000 (example_fcinfo 42 0 10 0) example_state_42 =
          (Inl (ereport_ERROR ERRCODE_INVALID_PARAMETER_VALUE m), example_state_42)) \<and>
   (\<exists>m. yb_query_diagnostics example_env 1000 (example_fcinfo 42 5 10 (- 1)) example_state_42 =
          (Inl (ereport_ERROR ERRCODE_INVALID_PARAMETER_VALUE m), example_state_42))"
proof -
  have en: "YBIsQueryDiagnosticsEnabled example_env" by code_simp
  have v0: "valid_arguments (example_fcinfo 42 5 0 0)" by code_simp
  have v100: "valid_arguments (example_fcinfo 42 5 100 0)" by code_simp
  have i1: "\<not> valid_arguments (example_fcinfo 42 5 (- 1) 0)" by code_simp
  have i101: "\<not> valid_arguments (example_fcinfo 42 5 101 0)" by code_simp
  have iq: "\<not> valid_arguments (example_fcinfo 0 5 10 0)" by code_simp
  have ii: "\<not> valid_arguments (example_fcinfo 42 0 10 0)" by code_simp
  have id: "\<not> valid_arguments (example_fcinfo 42 5 10 (- 1))" by code_simp
  have a: "\<exists>p. FetchParams (example_fcinfo 42 5 0 0) = Inr p"
    using C7_arguments_validated_before_any_mutation [of "example_fcinfo 42 5 0 0"] v0
    by simp
  have b: "\<exists>p. FetchParams (example_fcinfo 42 5 100 0) = Inr p"
    using C7_arguments_validated_before_any_mutation [of "example_fcinfo 42 5 100 0"] v100
    by simp
  have c: "\<exists>m. yb_query_diagnostics example_env 1000 (example_fcinfo 42 5 (- 1) 0)
                 example_state =
               (Inl (ereport_ERROR ERRCODE_INVALID_PARAMETER_VALUE m), example_state)"
    using C7_arguments_validated_before_any_mutation
            [of "example_fcinfo 42 5 (- 1) 0" example_env 1000 example_state] i1 en
    by blast
  have d: "\<exists>m. yb_query_diagnostics example_env 1000 (example_fcinfo 42 5 101 0)
                 example_state =
               (Inl (ereport_ERROR ERRCODE_INVALID_PARAMETER_VALUE m), example_state)"
    using C7_arguments_validated_before_any_mutation
            [of "example_fcinfo 42 5 101 0" example_env 1000 example_state] i101 en
    by blast
  have e: "\<exists>m. yb_query_diagnostics example_env 1000 (example_fcinfo 0 5 10 0)
                 example_state_42 =
               (Inl (ereport_ERROR ERRCODE_INVALID_PARAMETER_VALUE m), example_state_42)"
    using C7_arguments_validated_before_any_mutation
            [of "example_fcinfo 0 5 10 0" example_env 1000 example_state_42] iq en
    by blast
  have f: "\<exists>m. yb_query_diagnostics example_env 1000 (example_fcinfo 42 0 10 0)
                 example_state_42 =
               (Inl (ereport_ERROR ERRCODE_INVALID_PARAMETER_VALUE m), example_state_42)"
    using C7_arguments_validated_before_any_mutation
            [of "example_fcinfo 42 0 10 0" example_env 1000 example_state_42] ii en
    by blast
  have g: "\<exists>m. yb_query_diagnostics example_env 1000 (example_fcinfo 42 5 10 (- 1))
                 example_state_42 =
               (Inl (ereport_ERROR ERRCODE_INVALID_PARAMETER_VALUE m), example_state_42)"
    using C7_arguments_validated_before_any_mutation
            [of "example_fcinfo 42 5 10 (- 1)" example_env 1000 example_state_42] id en
    by blast
  from a b c d e f g show ?thesis by blast
qed

subsection \<open>The path of a bundle\<close>

lemma yb_query_diagnostics_path:
  assumes "yb_query_diagnostics e now fcinfo s = (Inr p, s')"
  shows "p = diagnostics_path_text e
               \<lparr>params = \<lparr>query_id = arg0 fcinfo, diagnostics_interval_sec = arg1 fcinfo,
                           explain_sample_rate = arg2 fcinfo, explain_analyze = arg3 fcinfo,
                           explain_dist = arg4 fcinfo, explain_debug = arg5 fcinfo,
                           bind_var_query_min_duration_ms = arg6 fcinfo\<rparr>,
                 start_time = now, path = []\<rparr>"
  using assms
  by (auto simp: yb_query_diagnostics_def FetchParams_def Let_def ConstructDiagnosticsPath_def
       split: if_splits sum.splits prod.splits)

text \<open>
  Claim C10. The path a successful call of \<^verbatim>\<open>yb_query_diagnostics\<close> returns is the data
  directory, \<^verbatim>\<open>query-diagnostics\<close>, the query id and the hash of the start time, each followed
  by a slash: two calls at the same time for the same query id return the same path,
  whatever their other arguments and whatever the state.
\<close>

theorem C10_path_is_a_function_of_query_id_and_start_time:
  assumes "yb_query_diagnostics e now fcinfo1 s1 = (Inr p1, s1')"
      and "yb_query_diagnostics e now fcinfo2 s2 = (Inr p2, s2')"
      and "arg0 fcinfo1 = arg0 fcinfo2"
  shows "p1 = p2 \<and>
         p1 = cstr (DataDir e) @ ''/query-diagnostics/'' @ dec_int (sint (arg0 fcinfo1)) @
              ''/'' @ dec_int (sint (hash_any e now)) @ ''/''"
proof -
  have "p1 = cstr (DataDir e) @ ''/query-diagnostics/'' @ dec_int (sint (arg0 fcinfo1)) @
             ''/'' @ dec_int (sint (hash_any e now)) @ ''/''"
    using yb_query_diagnostics_path [OF assms(1)] by (simp add: diagnostics_path_text_def)
  moreover
  have "p2 = cstr (DataDir e) @ ''/query-diagnostics/'' @ dec_int (sint (arg0 fcinfo2)) @
             ''/'' @ dec_int (sint (hash_any e now)) @ ''/''"
    using yb_query_diagnostics_path [OF assms(2)] by (simp add: diagnostics_path_text_def)
  ultimately show ?thesis using assms(3) by simp
qed

theorem C10_path_witness:
  "fst (yb_query_diagnostics example_env 1000 (example_fcinfo 42 5 10 0) example_state) =
     Inr ''/pg/query-diagnostics/42/1007/'' \<and>
   fst (yb_query_diagnostics example_env 1000 (example_fcinfo 42 60 100 3) example_state_7) =
     Inr ''/pg/query-diagnostics/42/1007/''"
proof -
  have a: "fst (yb_query_diagnostics example_env 1000 (example_fcinfo 42 5 10 0) example_state) =
             Inr ''/pg/query-diagnostics/42/1007/''"
    by code_simp
  have "\<not> isl (fst (yb_query_diagnostics example_env 1000 (example_fcinfo 42 60 100 3)
                       example_state_7))"
    by code_simp
  then obtain p2 where b:
    "fst (yb_query_diagnostics example_env 1000 (example_fcinfo 42 60 100 3) example_state_7) =
       Inr p2"
    by (cases "fst (yb_query_diagnostics example_env 1000 (example_fcinfo 42 60 100 3)
                      example_state_7)") auto
  have c: "arg0 (example_fcinfo 42 5 10 0) = arg0 (example_fcinfo 42 60 100 3)"
    by code_simp
  have "''/pg/query-diagnostics/42/1007/'' = p2"
    using C10_path_is_a_function_of_query_id_and_start_time
            [OF _ _ c, of example_env 1000 example_state "''/pg/query-diagnostics/42/1007/''"
             "snd (yb_query_diagnostics example_env 1000 (example_fcinfo 42 5 10 0)
                     example_state)"
             example_state_7 p2
             "snd (yb_query_diagnostics example_env 1000 (example_fcinfo 42 60 100 3)
                     example_state_7)"]
      a b
    by (simp add: prod_eq_iff)
  with a b show ?thesis by simp
qed

subsection \<open>The scan for expired bundles\<close>

lemma cstr_no_NUL: "NUL \<notin> set (cstr s)"
  by (auto simp: cstr_def dest: set_takeWhileD)

lemma strlen_no_NUL: "NUL \<notin> set s \<Longrightarrow> strlen s = length s"
  by (induction s) (auto simp: strlen_def)

lemma strlen_snprintf: "strlen (snprintf n s) \<le> n - 1"
proof -
  have "NUL \<notin> set (snprintf n s)"
    using cstr_no_NUL [of s] by (auto simp: snprintf_def dest: in_set_takeD)
  then show ?thesis
    by (simp add: strlen_no_NUL) (simp add: snprintf_def)
qed

lemma strlen_Nil [simp]: "strlen [] = 0"
  by (simp add: strlen_def)











text \<open>
  The operations keep the hash table with one entry per key, keyed by the query id.
\<close>

lemma table_ok_InsertNewBundleInfo:
  assumes "table_ok (bundles_in_progress s)"
  shows "table_ok (bundles_in_progress (snd (InsertNewBundleInfo e md s)))"
proof (cases "map_of (bundles_in_progress s) (query_id (params md))")
  case None
  then have "query_id (params md) \<notin> fst ` set (bundles_in_progress s)"
    by (simp add: map_of_eq_None_iff)
  with assms None show ?thesis
    by (simp add: InsertNewBundleInfo_def table_ok_def)
next
  case (Some entry)
  with assms show ?thesis
    by (simp add: InsertNewBundleInfo_def)
qed

lemma table_ok_update:
  assumes "table_ok tab" and "map_of tab k = Some entry" and "metadata entry' = metadata entry"
  shows "table_ok (AList.update k entry' tab)"
proof -
  have d: "distinct (map fst tab)" using assms(1) by (simp add: table_ok_def)
  have mem: "(k, entry) \<in> set tab" using assms(2) by (rule map_of_SomeD)
  then have "k \<in> set (map fst tab)" by force
  then have keys: "map fst (AList.update k entry' tab) = map fst tab"
    by (simp add: update_keys)
  have key: "query_id (params (metadata v)) = k'" if "(k', v) \<in> set tab" for k' v
    using assms(1) that by (auto simp: table_ok_def list_all_iff)
  have "query_id (params (metadata v)) = k'" if "(k', v) \<in> set (AList.update k entry' tab)"
    for k' v
  proof -
    from that d keys have "map_of (AList.update k entry' tab) k' = Some v" by simp
    then have "((map_of tab)(k \<mapsto> entry')) k' = Some v" by (simp add: update_conv')
    then show ?thesis
      using key [OF mem] assms(3) key [of k' v] d
      by (cases "k' = k") (auto dest: map_of_SomeD)
  qed
  with keys d show ?thesis
    by (auto simp: table_ok_def list_all_iff)
qed

lemma AccumulateBindVariables_metadata:
  "metadata (snd (AccumulateBindVariables e entry t ps)) = metadata entry"
  by (simp add: AccumulateBindVariables_def Let_def)

lemma table_ok_ExecutorEnd:
  assumes "table_ok (bundles_in_progress s)"
  shows "table_ok (bundles_in_progress (snd (YbQueryDiagnostics_ExecutorEnd e d s)))"
proof (cases "map_of (bundles_in_progress s) (queryId d)")
  case None
  with assms show ?thesis by (simp add: YbQueryDiagnostics_ExecutorEnd_def)
next
  case (Some entry)
  show ?thesis
    using assms Some
      table_ok_update [OF assms Some AccumulateBindVariables_metadata, of e "totaltime_ms d"]
    by (auto simp: YbQueryDiagnostics_ExecutorEnd_def Let_def split: option.splits prod.splits)
       (metis snd_conv)
qed

lemma table_ok_filter: "table_ok tab \<Longrightarrow> table_ok (filter P tab)"
  by (auto simp: table_ok_def list_all_iff distinct_map_filter)

lemma table_ok_yb_query_diagnostics:
  assumes "table_ok (bundles_in_progress s)"
  shows "table_ok (bundles_in_progress (snd (yb_query_diagnostics e now fcinfo s)))"
  using assms table_ok_InsertNewBundleInfo [OF assms, of e]
  by (auto simp: yb_query_diagnostics_def split: sum.splits prod.splits) (metis snd_conv)+

lemma table_ok_finish_bundle:
  assumes "table_ok (bundles_in_progress s)" and "finish_bundle e entry s = Some s'"
  shows "table_ok (bundles_in_progress s')"
proof -
  from assms(2) have "bundles_in_progress s' =
    AList.delete (query_id (params (metadata entry))) (bundles_in_progress s)"
    by (auto simp: finish_bundle_def Let_def split: prod.splits option.splits if_splits)
  with assms(1) show ?thesis
    by (simp add: AList.delete_eq table_ok_filter)
qed

subsection \<open>A bundle with no data\<close>

lemma strlen_snprintf_le: "strlen (snprintf n s) \<le> n"
  by (rule order_trans [OF strlen_snprintf]) simp

lemma snprintf_No_data:
  "snprintf DESCRIPTION_LEN ''No data captured'' = ''No data captured''"
  by (simp add: snprintf_def DESCRIPTION_LEN_def cstr_def NUL_def)

lemma cstr_Nil_iff: "cstr data = [] \<longleftrightarrow> (case data of [] \<Rightarrow> True | c # cs \<Rightarrow> c = NUL)"
  by (cases data) (auto simp: cstr_def)

lemma DumpToFile_empty:
  assumes "cstr data = []"
  shows "DumpToFile e p f data d fs = (DIAGNOSTICS_SUCCESS, ''No data captured'', fs)"
  using assms by (simp add: DumpToFile_def cstr_Nil_iff snprintf_No_data)

text \<open>
  Claim C5, as amended. For an entry whose buffer holds no data, \<^verbatim>\<open>DumpToFile\<close> returns
  success with the description \<^verbatim>\<open>No data captured\<close> and leaves the files as they are. The
  body of the scan for such an entry writes no file and inserts a record with the entry's
  metadata into the circular buffer; the status of the record is success when the
  directory could be made, and error when \<^verbatim>\<open>pg_mkdir_p\<close> failed, in which case
  \<^verbatim>\<open>DumpToFile\<close> is not called.
\<close>

theorem C5_no_data_captured:
  assumes "cstr (bind_vars entry) = []"
      and "index (bundles_completed s) < max_entries (bundles_completed s)"
  shows "DumpToFile e (path (metadata entry)) ''bind_variables.csv'' (bind_vars entry) [] (files s) =
           (DIAGNOSTICS_SUCCESS, ''No data captured'', files s) \<and>
         (\<exists>s'. finish_bundle e entry s = Some s' \<and>
               files s' = files s \<and>
               bmetadata (bundles (bundles_completed s') ! index (bundles_completed s)) =
                 metadata entry \<and>
               status (bundles (bundles_completed s') ! index (bundles_completed s)) =
                 (if pg_mkdir_p_fails e (path (metadata entry)) then DIAGNOSTICS_ERROR
                  else DIAGNOSTICS_SUCCESS))"
proof -
  have d: "DumpToFile e (path (metadata entry)) ''bind_variables.csv'' (bind_vars entry) [] (files s) =
           (DIAGNOSTICS_SUCCESS, ''No data captured'', files s)"
    using assms(1) by (rule DumpToFile_empty)
  have l1: "strlen ''No data captured'' \<le> DESCRIPTION_LEN"
    by (simp add: strlen_def NUL_def DESCRIPTION_LEN_def)
  have l2: "strlen (snprintf DESCRIPTION_LEN ''Failed to create query diagnostics directory'')
              \<le> DESCRIPTION_LEN"
    by (rule strlen_snprintf_le)
  from assms(2) l1 l2 d show ?thesis
    by (simp add: finish_bundle_def Let_def InsertCompletedBundleInfo_def max_entries_def)
qed

text \<open>
  The claim as stated fails where the directory cannot be made: the bundle of query 42 has
  an empty buffer when it expires, and its record in the status view has the status
  \<^verbatim>\<open>Error\<close>.
\<close>

theorem C5_no_data_counterexample:
  "cstr (MemSet0 40) = [] \<and>
   map_option (\<lambda>s. (map (\<lambda>r. (col_query_id r, col_status r, col_description r))
                      (ProcessCompletedBundles (bundles_completed s)), files s))
     (RemoveExpiredEntries example_env_no_mkdir 5001000 example_state_42) =
   Some ([(42, ''Error'', ''Failed to create query diagnostics directory'')], [])"
  by code_simp

theorem C5_no_data_witness:
  "\<exists>s'. finish_bundle example_env \<lparr>metadata = example_metadata 42, bind_vars = MemSet0 40\<rparr>
          example_state_42 = Some s' \<and>
        files s' = [] \<and>
        status (bundles (bundles_completed s') ! 0) = DIAGNOSTICS_SUCCESS"
proof -
  have h1: "cstr (bind_vars \<lparr>metadata = example_metadata 42, bind_vars = MemSet0 40\<rparr>) = []"
    by code_simp
  have h2: "index (bundles_completed example_state_42) <
            max_entries (bundles_completed example_state_42)"
    by code_simp
  have f: "files example_state_42 = []" "index (bundles_completed example_state_42) = 0"
    by code_simp+
  have m: "\<not> pg_mkdir_p_fails example_env
              (path (metadata \<lparr>metadata = example_metadata 42, bind_vars = MemSet0 40\<rparr>))"
    by code_simp
  from C5_no_data_captured [OF h1 h2, of example_env] f m show ?thesis
    by auto
qed

subsection \<open>The order of the completed bundles\<close>

lemma InsertCompletedBundleInfo_view:
  assumes "index bc < max_entries bc" and "strlen d \<le> DESCRIPTION_LEN"
  shows "\<exists>bc'. InsertCompletedBundleInfo md st d bc = Some bc' \<and>
               max_entries bc' = max_entries bc \<and>
               index bc' = (if Suc (index bc) = max_entries bc then 0 else Suc (index bc)) \<and>
               map slot_view (bundles bc') = (map slot_view (bundles bc))[index bc := (md, st)]"
  using assms
  by (auto simp: InsertCompletedBundleInfo_def max_entries_def Let_def slot_view_def map_update)

lemma InsertAll_append:
  "InsertAll (xs @ ys) bc =
     (case InsertAll xs bc of None \<Rightarrow> None | Some bc' \<Rightarrow> InsertAll ys bc')"
  by (induction xs arbitrary: bc) (auto split: option.splits)

lemma InsertAll_fill:
  assumes "length rs \<le> n" and "0 < n"
      and "list_all (\<lambda>r. strlen (snd (snd r)) \<le> DESCRIPTION_LEN) rs"
  shows "\<exists>bc. InsertAll rs (bundles_completed_init n) = Some bc \<and>
              max_entries bc = n \<and>
              index bc = (if length rs = n then 0 else length rs) \<and>
              map slot_view (bundles bc) =
                map record_view rs @ replicate (n - length rs) (slot_view zero_BundleInfo)"
  using assms
proof (induction rs rule: rev_induct)
  case Nil
  then show ?case
    by (simp add: bundles_completed_init_def max_entries_def)
next
  case (snoc r rs)
  obtain md st d where r: "r = (md, st, d)" by (cases r)
  from snoc obtain bc where bc: "InsertAll rs (bundles_completed_init n) = Some bc"
    "max_entries bc = n" "index bc = length rs"
    "map slot_view (bundles bc) =
       map record_view rs @ replicate (n - length rs) (slot_view zero_BundleInfo)"
    by auto
  have "index bc < max_entries bc" using bc snoc.prems by simp
  moreover have "strlen d \<le> DESCRIPTION_LEN" using snoc.prems r by simp
  ultimately obtain bc' where bc': "InsertCompletedBundleInfo md st d bc = Some bc'"
    "max_entries bc' = max_entries bc"
    "index bc' = (if Suc (index bc) = max_entries bc then 0 else Suc (index bc))"
    "map slot_view (bundles bc') = (map slot_view (bundles bc))[index bc := (md, st)]"
    using InsertCompletedBundleInfo_view by blast
  have "(map record_view rs @ replicate (n - length rs) (slot_view zero_BundleInfo))
          [length rs := (md, st)] =
        map record_view (rs @ [r]) @ replicate (n - length (rs @ [r])) (slot_view zero_BundleInfo)"
  proof -
    from snoc.prems have "n - length rs = Suc (n - length (rs @ [r]))" by simp
    then show ?thesis
      by (simp add: list_update_append r record_view_def)
  qed
  with bc bc' r show ?case
    by (simp add: InsertAll_append)
qed

lemma ProcessCompletedBundles_map:
  "ProcessCompletedBundles bc = concat (map slot_rows (bundles bc))"
proof -
  have "map (\<lambda>i. slot_rows (bundles bc ! i)) [0..<length (bundles bc)] =
        map slot_rows (bundles bc)"
    by (rule nth_equalityI) auto
  then show ?thesis
    by (simp add: ProcessCompletedBundles_def max_entries_def)
qed

lemma blank_OutputBundle: "blank_description (OutputBundle md d st) = OutputBundle md [] st"
  by (simp add: blank_description_def OutputBundle_def cstr_def)

lemma ProcessCompletedBundles_views:
  "map blank_description (ProcessCompletedBundles bc) =
     map view_row (filter (\<lambda>v. query_id (params (fst v)) \<noteq> 0) (map slot_view (bundles bc)))"
proof -
  have "map blank_description (concat (map slot_rows xs)) =
        map view_row (filter (\<lambda>v. query_id (params (fst v)) \<noteq> 0) (map slot_view xs))" for xs
    by (induction xs) (auto simp: slot_rows_def blank_OutputBundle view_row_def slot_view_def)
  then show ?thesis
    unfolding ProcessCompletedBundles_map by simp
qed

text \<open>
  Claim C2, as amended. After \<open>n + 1\<close> insertions into a circular buffer of \<open>n\<close> slots that
  starts empty, of records whose query id is not zero, the rows of the completed bundles in
  the status view are, descriptions apart, those of the last \<open>n\<close> records in the order of
  the slots: the last record, which took the slot of the first, and then the second to
  the \<open>n\<close>-th record. The first record has no row.
\<close>

theorem C2_last_n_records_in_slot_order:
  assumes "0 < n" and "length rs = Suc n"
      and "list_all (\<lambda>r. query_id (params (fst r)) \<noteq> 0 \<and>
                          strlen (snd (snd r)) < DESCRIPTION_LEN) rs"
  shows "\<exists>bc. InsertAll rs (bundles_completed_init n) = Some bc \<and>
              map blank_description (ProcessCompletedBundles bc) =
                map (view_row \<circ> record_view) (last rs # tl (butlast rs))"
proof -
  obtain xs x where rs: "rs = xs @ [x]"
    using assms(2) by (metis length_Suc_conv_rev)
  obtain md st d where x: "x = (md, st, d)" by (cases x)
  have len: "length xs = n" using assms(2) rs by simp
  have fits: "list_all (\<lambda>r. strlen (snd (snd r)) \<le> DESCRIPTION_LEN) xs"
    using assms(3) rs by (auto simp: list_all_iff intro: less_imp_le)
  have nz: "\<And>r. r \<in> set rs \<Longrightarrow> query_id (params (fst (record_view r))) \<noteq> 0"
    using assms(3) by (auto simp: list_all_iff record_view_def)
  from InsertAll_fill [of xs n] len assms(1) fits
  obtain bc where bc: "InsertAll xs (bundles_completed_init n) = Some bc"
    "max_entries bc = n" "index bc = 0" "map slot_view (bundles bc) = map record_view xs"
    by auto
  have "index bc < max_entries bc" using bc assms(1) by simp
  moreover have "strlen d \<le> DESCRIPTION_LEN"
    using assms(3) rs x by (auto simp: list_all_iff intro: less_imp_le)
  ultimately obtain bc' where bc': "InsertCompletedBundleInfo md st d bc = Some bc'"
    "map slot_view (bundles bc') = (map slot_view (bundles bc))[index bc := (md, st)]"
    using InsertCompletedBundleInfo_view by blast
  from len assms(1) obtain y ys where xs: "xs = y # ys" by (cases xs) auto
  have views: "map slot_view (bundles bc') = map record_view (last rs # tl (butlast rs))"
    using bc'(2) bc(3,4) by (simp add: rs x xs record_view_def)
  have "filter (\<lambda>v. query_id (params (fst v)) \<noteq> 0) (map record_view (last rs # tl (butlast rs)))
        = map record_view (last rs # tl (butlast rs))"
  proof (intro filter_True ballI)
    fix v assume "v \<in> set (map record_view (last rs # tl (butlast rs)))"
    then have "v \<in> record_view ` set (last rs # tl (butlast rs))"
      by (simp only: set_map)
    then obtain r where r: "r \<in> set (last rs # tl (butlast rs))" "v = record_view r"
      by blast
    have "set (last rs # tl (butlast rs)) \<subseteq> set rs"
      by (auto simp: rs xs)
    with r have "r \<in> set rs" by blast
    with nz r(2) show "query_id (params (fst v)) \<noteq> 0" by simp
  qed
  then have "map blank_description (ProcessCompletedBundles bc') =
             map (view_row \<circ> record_view) (last rs # tl (butlast rs))"
    by (simp add: ProcessCompletedBundles_views views)
  moreover have "InsertAll rs (bundles_completed_init n) = Some bc'"
    using bc(1) bc'(1) by (simp add: rs x InsertAll_append)
  ultimately show ?thesis by blast
qed

text \<open>
  The order is not the order of recency: after four insertions into three slots the rows
  are those of the records 4, 2 and 3.
\<close>

theorem C2_slot_order_counterexample:
  "map_option (map col_query_id \<circ> ProcessCompletedBundles)
     (InsertAll [(example_metadata 1, DIAGNOSTICS_SUCCESS, []),
                 (example_metadata 2, DIAGNOSTICS_SUCCESS, []),
                 (example_metadata 3, DIAGNOSTICS_SUCCESS, []),
                 (example_metadata 4, DIAGNOSTICS_SUCCESS, [])]
        (bundles_completed_init 3)) = Some [4, 2, 3] \<and>
   [4, 2, 3] \<noteq> [2, 3, 4 :: int64] \<and> [4, 2, 3] \<noteq> [4, 3, 2 :: int64]"
  by code_simp

theorem C2_last_n_records_witness:
  "\<exists>bc. InsertAll [(example_metadata 1, DIAGNOSTICS_SUCCESS, ''No data captured''),
                    (example_metadata 2, DIAGNOSTICS_ERROR, ''Error writing to file; ''),
                    (example_metadata 3, DIAGNOSTICS_SUCCESS, [])]
           (bundles_completed_init 2) = Some bc \<and>
        map (\<lambda>r. (col_query_id r, col_status r)) (ProcessCompletedBundles bc) =
          [(3, ''Success''), (2, ''Error'')]"
proof -
  let ?rs = "[(example_metadata 1, DIAGNOSTICS_SUCCESS, ''No data captured''),
              (example_metadata 2, DIAGNOSTICS_ERROR, ''Error writing to file; ''),
              (example_metadata 3, DIAGNOSTICS_SUCCESS, [])]"
  have h1: "0 < (2::nat)" by simp
  have h2: "length ?rs = Suc 2" by simp
  have h3: "list_all (\<lambda>r. query_id (params (fst r)) \<noteq> 0 \<and>
                           strlen (snd (snd r)) < DESCRIPTION_LEN) ?rs"
    by code_simp
  from C2_last_n_records_in_slot_order [OF h1 h2 h3]
  obtain bc where bc: "InsertAll ?rs (bundles_completed_init 2) = Some bc"
    "map blank_description (ProcessCompletedBundles bc) =
       map (view_row \<circ> record_view) (last ?rs # tl (butlast ?rs))"
    by (elim exE conjE)
  have "map (\<lambda>r. (col_query_id r, col_status r)) (ProcessCompletedBundles bc) =
        map (\<lambda>r. (col_query_id r, col_status r))
          (map blank_description (ProcessCompletedBundles bc))"
    by (simp add: blank_description_def)
  also have "\<dots> = map (\<lambda>r. (col_query_id r, col_status r))
                     (map (view_row \<circ> record_view) (last ?rs # tl (butlast ?rs)))"
    by (simp only: bc(2))
  also have "\<dots> = [(3, ''Success''), (2, ''Error'')]"
    by code_simp
  finally have "map (\<lambda>r. (col_query_id r, col_status r)) (ProcessCompletedBundles bc) =
                  [(3, ''Success''), (2, ''Error'')]" .
  with bc(1) show ?thesis by (intro exI [of _ bc] conjI)
qed

subsection \<open>The buffer of a session and the file written from it\<close>

lemma takeWhile_text:
  assumes "NUL \<notin> set c" and "0 < k"
  shows "takeWhile (\<lambda>x. x \<noteq> NUL) (c @ replicate k NUL) = c"
proof -
  from assms(2) obtain k' where "k = Suc k'" by (cases k) auto
  with assms(1) show ?thesis by (induction c) auto
qed

lemma holds_text_cstr: "holds_text m bv c \<Longrightarrow> cstr bv = c"
  by (simp add: holds_text_def cstr_def takeWhile_text)

lemma holds_text_strlen: "holds_text m bv c \<Longrightarrow> strlen bv = length c"
  by (simp add: holds_text_def strlen_def takeWhile_text)

lemma holds_text_memcpy:
  assumes "holds_text m bv c" and "NUL \<notin> set l" and "length c + length l < m"
  shows "holds_text m (memcpy bv (length c) l) (c @ l)"
  using assms by (auto simp: holds_text_def memcpy_def)

lemma holds_text_MemSet0: "0 < m \<Longrightarrow> holds_text m (MemSet0 m) []"
  by (simp add: holds_text_def MemSet0_def)

lemma FormatParams_no_NUL: "NUL \<notin> set buf \<Longrightarrow> NUL \<notin> set (FormatParams e buf ps)"
proof (induction ps arbitrary: buf)
  case Nil
  then show ?case by simp
next
  case (Cons p ps)
  have "NUL \<notin> set (if isnull p then buf @ ''NULL''
                     else buf @ cstr (type_output e (ptype p) (pvalue p)) @ '','')"
    using Cons.prems cstr_no_NUL by (auto simp: NUL_def)
  then show ?case using Cons.IH by simp
qed

lemma sample_line_no_NUL: "NUL \<notin> set (sample_line e t ps)"
  using FormatParams_no_NUL [of "[]" e ps] cstr_no_NUL [of "printf_lf e t"]
  by (auto simp: sample_line_def NUL_def)

lemma sample_line_not_Nil: "sample_line e t ps \<noteq> []"
  by (simp add: sample_line_def)

lemma AccumulateBindVariables_text:
  assumes "holds_text (YB_QD_MAX_BIND_VARS_LEN e) (bind_vars entry) c"
  shows "metadata (snd (AccumulateBindVariables e entry t ps)) = metadata entry \<and>
         holds_text (YB_QD_MAX_BIND_VARS_LEN e)
           (bind_vars (snd (AccumulateBindVariables e entry t ps)))
           (c @ concat (accepted (YB_QD_MAX_BIND_VARS_LEN e) (length c) [sample_line e t ps]))"
proof -
  let ?m = "YB_QD_MAX_BIND_VARS_LEN e" and ?l = "sample_line e t ps"
  have len: "strlen (bind_vars entry) = length c"
    using assms by (rule holds_text_strlen)
  have pos: "0 < length ?l" using sample_line_not_Nil [of e t ps] by simp
  show ?thesis
  proof (cases "length c + length ?l < ?m")
    case True
    then have "length c \<noteq> ?m - 1" using pos by linarith
    with True len holds_text_memcpy [OF assms sample_line_no_NUL True]
    show ?thesis by (simp add: AccumulateBindVariables_def Let_def)
  next
    case False
    with len assms show ?thesis by (simp add: AccumulateBindVariables_def Let_def)
  qed
qed

lemma ExecutorEnd_text:
  assumes "map_of (bundles_in_progress s) q = Some entry"
      and "holds_text (YB_QD_MAX_BIND_VARS_LEN e) (bind_vars entry) c"
  shows "\<exists>entry'. map_of (bundles_in_progress (snd (YbQueryDiagnostics_ExecutorEnd e d s))) q =
                    Some entry' \<and>
                  metadata entry' = metadata entry \<and>
                  holds_text (YB_QD_MAX_BIND_VARS_LEN e) (bind_vars entry')
                    (c @ concat (accepted (YB_QD_MAX_BIND_VARS_LEN e) (length c)
                       (offered e q (bind_var_query_min_duration_ms (params (metadata entry)))
                          [d])))"
proof (cases "queryId d = q")
  case False
  then have "map_of (bundles_in_progress (snd (YbQueryDiagnostics_ExecutorEnd e d s))) q =
             Some entry"
    using assms(1)
    by (auto simp: YbQueryDiagnostics_ExecutorEnd_def Let_def update_conv'
          split: option.splits prod.splits)
  moreover have "offered e q (bind_var_query_min_duration_ms (params (metadata entry))) [d] = []"
    using False by (simp split: option.splits)
  ultimately show ?thesis using assms(2) by simp
next
  case True
  show ?thesis
  proof (cases "qd_params d")
    case None
    with True assms show ?thesis
      by (simp add: YbQueryDiagnostics_ExecutorEnd_def)
  next
    case (Some ps)
    show ?thesis
    proof (cases "of_int (sint (bind_var_query_min_duration_ms (params (metadata entry))))
                    \<le> totaltime_ms d")
      case False
      with True Some assms show ?thesis
        by (simp add: YbQueryDiagnostics_ExecutorEnd_def)
    next
      case le: True
      obtain evs entry1 where acc:
        "AccumulateBindVariables e entry (totaltime_ms d) ps = (evs, entry1)"
        by (cases "AccumulateBindVariables e entry (totaltime_ms d) ps")
      from AccumulateBindVariables_text [OF assms(2), of "totaltime_ms d" ps] acc
      have e1: "metadata entry1 = metadata entry"
        "holds_text (YB_QD_MAX_BIND_VARS_LEN e) (bind_vars entry1)
           (c @ concat (accepted (YB_QD_MAX_BIND_VARS_LEN e) (length c)
                          [sample_line e (totaltime_ms d) ps]))"
        by simp_all
      have "snd (YbQueryDiagnostics_ExecutorEnd e d s) =
            s\<lparr>bundles_in_progress := AList.update q entry1 (bundles_in_progress s)\<rparr>"
        using True Some le assms(1) acc
        by (simp add: YbQueryDiagnostics_ExecutorEnd_def)
      then have m1: "map_of (bundles_in_progress (snd (YbQueryDiagnostics_ExecutorEnd e d s))) q =
                     Some entry1"
        by (simp add: update_conv')
      have off: "offered e q (bind_var_query_min_duration_ms (params (metadata entry))) [d] =
                 [sample_line e (totaltime_ms d) ps]"
        using True Some le by simp
      show ?thesis
        unfolding off using m1 e1 by (intro exI [of _ entry1] conjI)
    qed
  qed
qed

lemma accepted_append:
  "accepted m u (xs @ ys) =
     accepted m u xs @ accepted m (u + length (concat (accepted m u xs))) ys"
  by (induction xs arbitrary: u) (auto simp: add.assoc)

lemma offered_append:
  "offered e q md (xs @ ys) = offered e q md xs @ offered e q md ys"
  by (induction xs) (auto split: option.splits)

lemma offered_not_Nil: "list_all (\<lambda>l. l \<noteq> []) (offered e q md xs)"
  by (induction xs) (auto simp: sample_line_not_Nil split: option.splits)

lemma accepted_full:
  assumes "list_all (\<lambda>l. l \<noteq> []) ls" and "m - 1 \<le> u"
  shows "accepted m u ls = []"
  using assms
proof (induction ls)
  case Nil
  then show ?case by simp
next
  case (Cons l ls)
  then have "\<not> u + length l < m" by (cases l) auto
  with Cons show ?case by simp
qed

lemma ExecutorEnd_all_text:
  assumes "map_of (bundles_in_progress s) q = Some entry"
      and "holds_text (YB_QD_MAX_BIND_VARS_LEN e) (bind_vars entry) c"
  shows "\<exists>entry'. map_of (bundles_in_progress (snd (ExecutorEnd_all e qs s))) q = Some entry' \<and>
                  metadata entry' = metadata entry \<and>
                  holds_text (YB_QD_MAX_BIND_VARS_LEN e) (bind_vars entry')
                    (c @ concat (accepted (YB_QD_MAX_BIND_VARS_LEN e) (length c)
                       (offered e q (bind_var_query_min_duration_ms (params (metadata entry)))
                          qs)))"
  using assms
proof (induction qs arbitrary: s entry c)
  case Nil
  then show ?case by simp
next
  case (Cons d qs)
  let ?m = "YB_QD_MAX_BIND_VARS_LEN e"
  let ?md = "bind_var_query_min_duration_ms (params (metadata entry))"
  let ?c1 = "c @ concat (accepted ?m (length c) (offered e q ?md [d]))"
  from ExecutorEnd_text [OF Cons.prems, of d]
  obtain entry1 where e1:
    "map_of (bundles_in_progress (snd (YbQueryDiagnostics_ExecutorEnd e d s))) q = Some entry1"
    "metadata entry1 = metadata entry"
    "holds_text ?m (bind_vars entry1) ?c1"
    by (elim exE conjE)
  from Cons.IH [OF e1(1) e1(3)]
  obtain entry' where e':
    "map_of (bundles_in_progress
               (snd (ExecutorEnd_all e qs (snd (YbQueryDiagnostics_ExecutorEnd e d s))))) q =
       Some entry'"
    "metadata entry' = metadata entry1"
    "holds_text ?m (bind_vars entry')
       (?c1 @ concat (accepted ?m (length ?c1)
          (offered e q (bind_var_query_min_duration_ms (params (metadata entry1))) qs)))"
    by (elim exE conjE)
  have split: "offered e q ?md (d # qs) = offered e q ?md [d] @ offered e q ?md qs"
    using offered_append [of e q ?md "[d]" qs] by simp
  have content: "c @ concat (accepted ?m (length c) (offered e q ?md (d # qs))) =
        ?c1 @ concat (accepted ?m (length ?c1) (offered e q ?md qs))"
    unfolding split accepted_append by simp
  have run: "snd (ExecutorEnd_all e (d # qs) s) =
             snd (ExecutorEnd_all e qs (snd (YbQueryDiagnostics_ExecutorEnd e d s)))"
    by (simp add: split_def Let_def)
  have "map_of (bundles_in_progress (snd (ExecutorEnd_all e (d # qs) s))) q = Some entry'"
    unfolding run by (rule e'(1))
  moreover have "metadata entry' = metadata entry"
    using e'(2) e1(2) by simp
  moreover have "holds_text ?m (bind_vars entry')
                   (c @ concat (accepted ?m (length c) (offered e q ?md (d # qs))))"
    unfolding content using e'(3) by (simp only: e1(2))
  ultimately show ?case by (intro exI [of _ entry'] conjI)
qed

lemma map_of_write_file: "map_of (write_file p c fs) p = Some c"
  by (simp add: write_file_def)

lemma DumpToFile_written:
  assumes "cstr data \<noteq> []"
      and "PathNameOpenFile e (DumpToFile_file_path e p f) = Opened"
      and "FileWrite e (DumpToFile_file_path e p f) (cstr data) = WriteReturns (length (cstr data))"
  shows "DumpToFile e p f data [] fs =
           (DIAGNOSTICS_SUCCESS, [], write_file (DumpToFile_file_path e p f) (cstr data) fs)"
  using assms by (simp add: DumpToFile_def cstr_Nil_iff [symmetric] Let_def)

text \<open>
  Claim C6. A session starts with an empty buffer. After any run of executions its buffer
  holds the lines it accepted, one after the other in arrival order and byte for byte: the
  lines of the executions of its query that have bound parameters and reach the threshold,
  except those that did not fit in what was left of the buffer. When the file can be
  opened and the write is complete, \<^verbatim>\<open>DumpToFile\<close> writes exactly this text to
  \<^verbatim>\<open>bind_variables.csv\<close>. The text after more executions starts with the text before
  them, and once the buffer is at capacity nothing is added.
\<close>

theorem C6_file_is_the_accepted_lines_in_order:
  assumes "map_of (bundles_in_progress s) q = Some entry"
      and "bind_vars entry = MemSet0 (YB_QD_MAX_BIND_VARS_LEN e)"
      and "0 < YB_QD_MAX_BIND_VARS_LEN e"
      and "min_duration = bind_var_query_min_duration_ms (params (metadata entry))"
      and "file_path = DumpToFile_file_path e (path (metadata entry)) ''bind_variables.csv''"
  shows "\<exists>entry'.
           map_of (bundles_in_progress (snd (ExecutorEnd_all e qs s))) q = Some entry' \<and>
           metadata entry' = metadata entry \<and>
           cstr (bind_vars entry') = session_text e q min_duration qs \<and>
           (session_text e q min_duration qs \<noteq> [] \<and>
            PathNameOpenFile e file_path = Opened \<and>
            FileWrite e file_path (session_text e q min_duration qs) =
              WriteReturns (length (session_text e q min_duration qs)) \<longrightarrow>
            (\<exists>fs'. DumpToFile e (path (metadata entry')) ''bind_variables.csv''
                     (bind_vars entry') [] fs = (DIAGNOSTICS_SUCCESS, [], fs') \<and>
                   map_of fs' file_path = Some (session_text e q min_duration qs))) \<and>
           (\<forall>qs1 qs2. qs = qs1 @ qs2 \<longrightarrow>
              (\<exists>rest. session_text e q min_duration qs =
                        session_text e q min_duration qs1 @ rest \<and>
                      (length (session_text e q min_duration qs1) =
                         YB_QD_MAX_BIND_VARS_LEN e - 1 \<longrightarrow> rest = [])))"
proof -
  let ?m = "YB_QD_MAX_BIND_VARS_LEN e"
  let ?t = "session_text e q min_duration qs"
  have "holds_text ?m (bind_vars entry) []"
    using assms(2,3) by (simp add: holds_text_MemSet0)
  from ExecutorEnd_all_text [OF assms(1) this, of qs]
  obtain entry' where e':
    "map_of (bundles_in_progress (snd (ExecutorEnd_all e qs s))) q = Some entry'"
    "metadata entry' = metadata entry"
    "holds_text ?m (bind_vars entry') ?t"
    unfolding session_text_def assms(4) by (elim exE conjE) simp
  have c: "cstr (bind_vars entry') = ?t"
    using e'(3) by (rule holds_text_cstr)
  have persist: "\<exists>fs'. DumpToFile e (path (metadata entry')) ''bind_variables.csv''
                     (bind_vars entry') [] fs = (DIAGNOSTICS_SUCCESS, [], fs') \<and>
                   map_of fs' file_path = Some ?t"
    if "?t \<noteq> []" "PathNameOpenFile e file_path = Opened"
       "FileWrite e file_path ?t = WriteReturns (length ?t)"
  proof -
    have "DumpToFile e (path (metadata entry')) ''bind_variables.csv'' (bind_vars entry') [] fs =
            (DIAGNOSTICS_SUCCESS, [], write_file file_path ?t fs)"
      using DumpToFile_written [of "bind_vars entry'" e "path (metadata entry')"
              "''bind_variables.csv''" fs] that
      unfolding c e'(2) assms(5) by simp
    then show ?thesis
      using map_of_write_file [of file_path ?t fs] by (intro exI conjI)
  qed
  have grow: "\<exists>rest. ?t = session_text e q min_duration qs1 @ rest \<and>
                 (length (session_text e q min_duration qs1) = ?m - 1 \<longrightarrow> rest = [])"
    if "qs = qs1 @ qs2" for qs1 qs2
  proof -
    let ?t1 = "session_text e q min_duration qs1"
    let ?rest = "concat (accepted ?m (length ?t1) (offered e q min_duration qs2))"
    have "?t = ?t1 @ ?rest"
      unfolding that session_text_def offered_append accepted_append by simp
    moreover have "?rest = []" if "length ?t1 = ?m - 1"
      using accepted_full [OF offered_not_Nil, of ?m "length ?t1" e q min_duration qs2] that
      by simp
    ultimately show ?thesis by blast
  qed
  from e'(1,2) c persist grow show ?thesis
    by (intro exI [of _ entry'] conjI impI allI) auto
qed

theorem C6_accepted_lines_witness:
  "\<exists>entry'.
     map_of (bundles_in_progress (snd (ExecutorEnd_all example_env example_executions
                                         example_state_42))) 42 = Some entry' \<and>
     cstr (bind_vars entry') =
       ''1,a,12.300000'' @ [CHR 0x0A] @ ''NULL1,12.300000'' @ [CHR 0x0A] \<and>
     (\<exists>fs'. DumpToFile example_env (path (metadata entry')) ''bind_variables.csv''
              (bind_vars entry') [] [] = (DIAGNOSTICS_SUCCESS, [], fs') \<and>
            map_of fs' ''/pg/query-diagnostics/42/1007//bind_variables.csv'' =
              Some (''1,a,12.300000'' @ [CHR 0x0A] @ ''NULL1,12.300000'' @ [CHR 0x0A]))"
proof -
  let ?entry = "\<lparr>metadata = example_metadata 42, bind_vars = MemSet0 40\<rparr>"
  let ?text = "''1,a,12.300000'' @ [CHR 0x0A] @ ''NULL1,12.300000'' @ [CHR 0x0A]"
  let ?file = "''/pg/query-diagnostics/42/1007//bind_variables.csv''"
  have h1: "map_of (bundles_in_progress example_state_42) 42 = Some ?entry"
    by code_simp
  have h2: "bind_vars ?entry = MemSet0 (YB_QD_MAX_BIND_VARS_LEN example_env)"
    by code_simp
  have h3: "0 < YB_QD_MAX_BIND_VARS_LEN example_env"
    by code_simp
  have h4: "0 = bind_var_query_min_duration_ms (params (metadata ?entry))"
    by code_simp
  have h5: "?file = DumpToFile_file_path example_env (path (metadata ?entry))
                      ''bind_variables.csv''"
    by code_simp
  have t: "session_text example_env 42 0 example_executions = ?text"
    by code_simp
  have ne: "?text \<noteq> []"
    by simp
  have op: "PathNameOpenFile example_env ?file = Opened"
    by code_simp
  have wr: "FileWrite example_env ?file ?text = WriteReturns (length ?text)"
    by code_simp
  from C6_file_is_the_accepted_lines_in_order
         [OF h1 h2 h3 h4 h5, of example_executions "[]"]
  obtain entry' where e':
    "map_of (bundles_in_progress (snd (ExecutorEnd_all example_env example_executions
                                         example_state_42))) 42 = Some entry'"
    "cstr (bind_vars entry') = ?text"
    "?text \<noteq> [] \<and> PathNameOpenFile example_env ?file = Opened \<and>
     FileWrite example_env ?file ?text = WriteReturns (length ?text) \<longrightarrow>
     (\<exists>fs'. DumpToFile example_env (path (metadata entry')) ''bind_variables.csv''
              (bind_vars entry') [] [] = (DIAGNOSTICS_SUCCESS, [], fs') \<and>
            map_of fs' ?file = Some ?text)"
    unfolding t by (elim exE conjE)
  from e'(3) ne op wr
  have "\<exists>fs'. DumpToFile example_env (path (metadata entry')) ''bind_variables.csv''
              (bind_vars entry') [] [] = (DIAGNOSTICS_SUCCESS, [], fs') \<and>
            map_of fs' ?file = Some ?text"
    by (elim impE) (intro conjI)
  with e'(1,2) show ?thesis
    by (intro exI [of _ entry'] conjI)
qed

subsection \<open>The effects of a scan\<close>
















subsection \<open>The locks held while a sample is formatted\<close>

text \<open>
  Claim C9, as amended. In one run of the hook, each time a sample is formatted the mutex
  of the entry is not held, and \<^verbatim>\<open>bundles_in_progress_lock\<close> is held in shared mode: the
  hook takes it before the lookup and releases it after \<^verbatim>\<open>AccumulateBindVariables\<close> returns.
\<close>

theorem C9_formatting_under_the_shared_table_lock:
  "locks_at_Formatting None False (fst (YbQueryDiagnostics_ExecutorEnd e d s)) =
     replicate
       (length (filter (\<lambda>ev. ev = Formatting) (fst (YbQueryDiagnostics_ExecutorEnd e d s))))
       (Some LW_SHARED, False)"
  by (simp add: YbQueryDiagnostics_ExecutorEnd_def AccumulateBindVariables_def Let_def
        split: option.splits prod.splits)

text \<open>
  The claim as stated fails: when the sample with the parameters 1 and a is formatted for
  the bundle of query 42, the lock of the hash table is held.
\<close>

theorem C9_table_lock_held_counterexample:
  "locks_at_Formatting None False
     (fst (YbQueryDiagnostics_ExecutorEnd example_env
             (example_QueryDesc 42 [param_int 1, param_text 97]) example_state_42)) =
     [(Some LW_SHARED, False)] \<and>
   locks_at_Formatting None False
     (fst (YbQueryDiagnostics_ExecutorEnd example_env
             (example_QueryDesc 42 [param_int 1, param_text 97]) example_state_42)) \<noteq>
     [(None, False)]"
  by code_simp

end
